theory Spec2Isabelle
  imports Main "HOL-Library.Sublist"
begin

section \<open>Two-phase trainer (utils/trainer.py)\<close>

text \<open>
  The development embeds the class \<open>Trainer\<close>: its constructor, the snapshot and resume
  pair, the loss dispatch, the phase and event logic, the two epoch passes and the epoch
  loop \<open>fit\<close>. Tensors, scalars and factors are values of one opaque type \<open>'v\<close>; the
  model weights \<open>'w\<close>, the optimizer state \<open>'o\<close> and the metric accumulator \<open>'m\<close> are
  opaque as well. What the source raises is a value of \<open>py_error\<close>. A procedure that
  mutates the trainer returns the trainer it leaves behind together with its outcome, also
  when it raises: an exception does not undo the prints and checkpoint writes before it.
\<close>

subsection \<open>Values, errors and collaborators\<close>

datatype py_error =
    ValueError string
  | KeyError string
  | AttributeError string
  | UnboundLocalError string
  | TypeError string
  | ZeroDivisionError
  | FileNotFoundError string
  | CollaboratorError string

type_synonym 'v stats = "string \<rightharpoonup> 'v"

text \<open>What a loss function of the model returns: loss, log-probabilities, weights, stats.\<close>

type_synonym 'v batch_result = "'v \<times> 'v \<times> 'v \<times> 'v stats"

text \<open>
  The collaborators the trainer calls and whose code is outside \<open>utils/trainer.py\<close>:
  the loss functions and \<open>predict\<close> of the model, the optimizer
  (\<open>torch.optim.Adam\<close>, and \<open>loss.backward(); optimizer.step()\<close> as one step on weights
  and optimizer state), the metric accumulator \<open>ClassMetric\<close> and the tensor operations
  \<open>targets.shape[0]\<close> and \<open>logprobabilities.exp().transpose(0, 1)\<close>. They are parameters
  of the model. A loss function may raise; device moves and \<open>.cpu().numpy()\<close> are the
  identity.
\<close>

record ('v, 'w, 'o, 'm) collab =
  loss_cross_entropy :: "'w \<Rightarrow> 'v \<Rightarrow> 'v \<Rightarrow> py_error + 'v batch_result"
  early_loss :: "'w \<Rightarrow> 'v \<Rightarrow> 'v \<Rightarrow> 'v \<Rightarrow> py_error + 'v batch_result"
  early_loss_simple :: "'w \<Rightarrow> 'v \<Rightarrow> 'v \<Rightarrow> 'v \<Rightarrow> py_error + 'v batch_result"
  early_loss_linear :: "'w \<Rightarrow> 'v \<Rightarrow> 'v \<Rightarrow> 'v \<Rightarrow> 'v \<Rightarrow> py_error + 'v batch_result"
  early_loss_cross_entropy :: "'w \<Rightarrow> 'v \<Rightarrow> 'v \<Rightarrow> 'v \<Rightarrow> 'v \<Rightarrow> py_error + 'v batch_result"
  predict :: "'w \<Rightarrow> 'v \<Rightarrow> 'v \<Rightarrow> 'v"
  adam :: "'w \<Rightarrow> 'v \<Rightarrow> 'o"
  backward_step :: "'w \<Rightarrow> 'o \<Rightarrow> 'v \<Rightarrow> 'w \<times> 'o"
  class_metric :: "nat \<Rightarrow> 'm"
  metric_add :: "'m \<Rightarrow> 'v stats \<Rightarrow> 'm \<times> 'v stats"
  update_confmat :: "'m \<Rightarrow> 'v \<Rightarrow> 'v \<Rightarrow> 'm \<times> 'v"
  hist :: "'m \<Rightarrow> 'v"
  shape0 :: "'v \<Rightarrow> int"
  exp_transpose :: "'v \<Rightarrow> 'v"

subsection \<open>Logger, checkpoints and the trainer\<close>

text \<open>
  Modelled from the spec: the class \<open>Logger\<close> of \<open>utils/logger.py\<close> is missing. The spec
  gives \<open>set_mode(name)\<close>, \<open>log(stats, epoch)\<close>, \<open>resume(serialized_series)\<close> and
  \<open>get_data() -> series\<close>, the series keyed by mode and epoch, and \<open>resume\<close> and
  \<open>get_data\<close> an inverse pair. The series is the list of logged entries.
\<close>

type_synonym 'v series = "(string \<times> int \<times> 'v stats) list"

record 'v logger =
  lmode :: string
  ldata :: "'v series"

definition new_logger :: "'v logger" where
  "new_logger = \<lparr>lmode = ''train'', ldata = []\<rparr>"

definition set_mode :: "'v logger \<Rightarrow> string \<Rightarrow> 'v logger" where
  "set_mode l name = l\<lparr>lmode := name\<rparr>"

definition log :: "'v logger \<Rightarrow> 'v stats \<Rightarrow> int \<Rightarrow> 'v logger" where
  "log l st e = l\<lparr>ldata := ldata l @ [(lmode l, e, st)]\<rparr>"

definition get_data :: "'v logger \<Rightarrow> 'v series" where
  "get_data l = ldata l"

definition logger_resume :: "'v logger \<Rightarrow> 'v series \<Rightarrow> 'v logger" where
  "logger_resume l d = l\<lparr>ldata := d\<rparr>"

text \<open>
  Modelled from the spec: \<open>Model.save(path, **metadata)\<close> and
  \<open>Model.load(path) -> metadata mapping\<close> are missing. A checkpoint file holds the model
  weights and the metadata given to \<open>save\<close>; \<open>load\<close> puts the weights back and returns the
  metadata; the two are an inverse pair.
\<close>

record ('v, 'w, 'o) checkpoint =
  ck_weights :: 'w
  ck_optimizer_state_dict :: 'o
  ck_epoch :: int
  ck_logged_data :: "'v series"

text \<open>
  What a run leaves behind, in order: the lines of \<open>print\<close>, the checkpoint writes (file
  and epoch counter at the write) and the calls of the two passes.
\<close>

datatype effect =
    Print string
  | Saved string int
  | TrainPass int
  | TestPass int

record 'v dataloader =
  batches :: "('v \<times> 'v) list"
  batch_size :: int
  dataset_nclasses :: nat

text \<open>
  The attributes of a \<open>Trainer\<close>, and the world it acts on: the checkpoint files \<open>fs\<close>
  and the trace \<open>out\<close>. The attribute \<open>visdom\<close> is \<open>None\<close> when it was never assigned.
\<close>

record ('v, 'w, 'o) trainer =
  epochs :: int
  earliness_factor :: 'v
  switch_epoch :: int
  tr_batch_size :: int
  traindataloader :: "'v dataloader"
  validdataloader :: "'v dataloader"
  nclasses :: nat
  entropy_factor :: 'v
  store :: string
  test_every_n_epochs :: int
  logger :: "'v logger"
  show_n_samples :: int
  lossmode :: string
  model :: 'w
  optimizer :: 'o
  visdom :: "string option"
  epoch :: int
  fs :: "string \<rightharpoonup> ('v, 'w, 'o) checkpoint"
  out :: "effect list"

definition CLASSIFICATION_PHASE_NAME :: string where
  "CLASSIFICATION_PHASE_NAME = ''classification''"

definition EARLINESS_PHASE_NAME :: string where
  "EARLINESS_PHASE_NAME = ''earliness''"

subsection \<open>Phase and loss dispatch\<close>

definition get_phase :: "('v, 'w, 'o) trainer \<Rightarrow> string" where
  "get_phase t =
     (if epoch t < switch_epoch t then CLASSIFICATION_PHASE_NAME
      else EARLINESS_PHASE_NAME)"

definition wrong_loss_mode :: string where
  "wrong_loss_mode =
     ''wrong loss_mode please choose either 'early_reward',  '' @
     '''twophase_early_reward', 'twophase_linear_loss', or 'twophase_cross_entropy'' @
     [CHR 0x27]"

text \<open>
  A \<open>return f(...)\<close>: what \<open>f\<close> raises is raised, what it returns is returned. The result
  \<open>Inr None\<close> is Python's \<open>None\<close>, returned when a function falls off its end.
\<close>

definition returning :: "py_error + 'a \<Rightarrow> py_error + 'a option" where
  "returning r = (case r of Inl e \<Rightarrow> Inl e | Inr x \<Rightarrow> Inr (Some x))"

definition loss_criterion ::
  "('v, 'w, 'o, 'm) collab \<Rightarrow> ('v, 'w, 'o) trainer \<Rightarrow> 'v \<Rightarrow> 'v \<Rightarrow> int option \<Rightarrow> 'v \<Rightarrow> 'v
     \<Rightarrow> py_error + 'v batch_result option" where
  "loss_criterion c t inputs targets epoch_arg earliness entropy =
     (if epoch_arg = None then
        returning (loss_cross_entropy c (model t) inputs targets)
      else if lossmode t = ''early_reward'' then
        returning (early_loss c (model t) inputs targets earliness)
      else if lossmode t = ''loss_cross_entropy'' then
        returning (loss_cross_entropy c (model t) inputs targets)
      else if lossmode t = ''twophase_early_reward'' then
        (if get_phase t = CLASSIFICATION_PHASE_NAME then
           returning (loss_cross_entropy c (model t) inputs targets)
         else if get_phase t = EARLINESS_PHASE_NAME then
           returning (early_loss_simple c (model t) inputs targets earliness)
         else Inr None)
      else if lossmode t = ''twophase_linear_loss'' then
        (if get_phase t = CLASSIFICATION_PHASE_NAME then
           returning (loss_cross_entropy c (model t) inputs targets)
         else if get_phase t = EARLINESS_PHASE_NAME then
           returning (early_loss_linear c (model t) inputs targets earliness entropy)
         else Inr None)
      else if lossmode t = ''twophase_cross_entropy'' then
        (if get_phase t = CLASSIFICATION_PHASE_NAME then
           returning (loss_cross_entropy c (model t) inputs targets)
         else if get_phase t = EARLINESS_PHASE_NAME then
           returning (early_loss_cross_entropy c (model t) inputs targets earliness entropy)
         else Inr None)
      else Inl (ValueError wrong_loss_mode))"

subsection \<open>Checkpoints and events\<close>

text \<open>\<open>os.path.join\<close> of a directory and a relative file name.\<close>

definition path_join :: "string \<Rightarrow> string \<Rightarrow> string" where
  "path_join a b =
     (if a = [] then b else if last a = CHR ''/'' then a @ b else a @ ''/'' @ b)"

definition get_classification_model_name :: "('v, 'w, 'o) trainer \<Rightarrow> string" where
  "get_classification_model_name t =
     path_join (store t) (''model_'' @ CLASSIFICATION_PHASE_NAME @ ''.pth'')"

definition get_earliness_model_name :: "('v, 'w, 'o) trainer \<Rightarrow> string" where
  "get_earliness_model_name t =
     path_join (store t) (''model_'' @ EARLINESS_PHASE_NAME @ ''.pth'')"

definition py_print :: "string \<Rightarrow> ('v, 'w, 'o) trainer \<Rightarrow> ('v, 'w, 'o) trainer" where
  "py_print s t = t\<lparr>out := out t @ [Print s]\<rparr>"

definition snapshot :: "('v, 'w, 'o) trainer \<Rightarrow> string \<Rightarrow> ('v, 'w, 'o) trainer" where
  "snapshot t filename =
     t\<lparr>fs := (fs t)(filename \<mapsto>
            \<lparr>ck_weights = model t,
             ck_optimizer_state_dict = optimizer t,
             ck_epoch = epoch t,
             ck_logged_data = get_data (logger t)\<rparr>),
       out := out t @ [Saved filename (epoch t)]\<rparr>"

definition resume ::
  "('v, 'w, 'o) trainer \<Rightarrow> string \<Rightarrow> py_error option \<times> ('v, 'w, 'o) trainer" where
  "resume t filename =
     (case fs t filename of
        None \<Rightarrow> (Some (FileNotFoundError filename), t)
      | Some snap \<Rightarrow>
          (None,
           t\<lparr>model := ck_weights snap,
             epoch := ck_epoch snap,
             optimizer := ck_optimizer_state_dict snap,
             logger := logger_resume (logger t) (ck_logged_data snap)\<rparr>))"

definition starting_classification_line :: string where
  "starting_classification_line = ''starting training phase classification''"

definition ending_classification_line :: string where
  "ending_classification_line = ''ending training phase classification''"

definition starting_earliness_line :: string where
  "starting_earliness_line = ''starting training phase earliness''"

definition ending_earliness_line :: string where
  "ending_earliness_line = ''ending training phase earliness''"

definition starting_phase_classification_event ::
  "('v, 'w, 'o) trainer \<Rightarrow> ('v, 'w, 'o) trainer" where
  "starting_phase_classification_event t = py_print starting_classification_line t"

definition ending_phase_classification_event ::
  "('v, 'w, 'o) trainer \<Rightarrow> ('v, 'w, 'o) trainer" where
  "ending_phase_classification_event t =
     (let t1 = py_print ending_classification_line t
      in snapshot t1 (get_classification_model_name t1))"

definition starting_phase_earliness_event ::
  "('v, 'w, 'o) trainer \<Rightarrow> ('v, 'w, 'o) trainer" where
  "starting_phase_earliness_event t = py_print starting_earliness_line t"

definition ending_phase_earliness_event ::
  "('v, 'w, 'o) trainer \<Rightarrow> ('v, 'w, 'o) trainer" where
  "ending_phase_earliness_event t =
     (let t1 = py_print ending_earliness_line t
      in snapshot t1 (get_earliness_model_name t1))"

definition check_events :: "('v, 'w, 'o) trainer \<Rightarrow> ('v, 'w, 'o) trainer" where
  "check_events t =
     (if epoch t = 0 then starting_phase_classification_event t
      else if epoch t = switch_epoch t then
        starting_phase_earliness_event (ending_phase_classification_event t)
      else if epoch t = epochs t then ending_phase_earliness_event t
      else t)"

definition new_epoch :: "('v, 'w, 'o) trainer \<Rightarrow> ('v, 'w, 'o) trainer" where
  "new_epoch t = (let t1 = check_events t in t1\<lparr>epoch := epoch t1 + 1\<rparr>)"

subsection \<open>The constructor\<close>

text \<open>
  The keyword arguments of \<open>Trainer.__init__\<close>. The constructor also gets the world: the
  checkpoint files present and the trace so far.
\<close>

record 'v trainer_args =
  arg_epochs :: int
  arg_switch_epoch :: int
  arg_learning_rate :: 'v
  arg_earliness_factor :: 'v
  arg_entropy_factor :: 'v
  arg_store :: string
  arg_test_every_n_epochs :: int
  arg_visdomenv :: "string option"
  arg_show_n_samples :: int
  arg_loss_mode :: string
  arg_overwrite :: bool

definition Trainer_init ::
  "('v, 'w, 'o, 'm) collab \<Rightarrow> 'w \<Rightarrow> 'v dataloader \<Rightarrow> 'v dataloader \<Rightarrow> 'v trainer_args
     \<Rightarrow> (string \<rightharpoonup> ('v, 'w, 'o) checkpoint) \<Rightarrow> effect list
     \<Rightarrow> py_error option \<times> ('v, 'w, 'o) trainer" where
  "Trainer_init c w trainl validl a files trace =
     (let t = \<lparr>epochs = arg_epochs a,
                earliness_factor = arg_earliness_factor a,
                switch_epoch = arg_switch_epoch a,
                tr_batch_size = batch_size validl,
                traindataloader = trainl,
                validdataloader = validl,
                nclasses = dataset_nclasses trainl,
                entropy_factor = arg_entropy_factor a,
                store = arg_store a,
                test_every_n_epochs = arg_test_every_n_epochs a,
                logger = new_logger,
                show_n_samples = arg_show_n_samples a,
                lossmode = arg_loss_mode a,
                model = w,
                optimizer = adam c w (arg_learning_rate a),
                visdom = arg_visdomenv a,
                epoch = 0,
                fs = files,
                out = trace\<rparr>
      in if files (get_classification_model_name t) \<noteq> None \<and> \<not> arg_overwrite a then
           resume
             (py_print (''Resuming from snapshot '' @ get_classification_model_name t @ ''.'') t)
             (get_classification_model_name t)
         else (None, t))"

subsection \<open>The epoch passes\<close>

text \<open>
  The batch loop of \<open>train_epoch\<close>. The local \<open>stats\<close> is bound by the loop body only:
  \<open>None\<close> is the unbound local. A loss dispatch that returns Python's \<open>None\<close> fails at the
  unpacking into four names.
\<close>

definition unpack_none :: py_error where
  "unpack_none = TypeError ''cannot unpack non-iterable NoneType object''"

fun train_batches ::
  "('v, 'w, 'o, 'm) collab \<Rightarrow> int \<Rightarrow> ('v \<times> 'v) list \<Rightarrow> 'm \<Rightarrow> 'v stats option
     \<Rightarrow> ('v, 'w, 'o) trainer \<Rightarrow> (py_error + 'v stats option) \<times> ('v, 'w, 'o) trainer" where
  "train_batches c e [] metric bound t = (Inr bound, t)"
| "train_batches c e ((inputs, targets) # rest) metric bound t =
     (case loss_criterion c t inputs targets (Some e) (earliness_factor t) (entropy_factor t) of
        Inl err \<Rightarrow> (Inl err, t)
      | Inr None \<Rightarrow> (Inl unpack_none, t)
      | Inr (Some (loss, logprobabilities, weights, stats)) \<Rightarrow>
          (let prediction = predict c (model t) logprobabilities weights;
               stepped = backward_step c (model t) (optimizer t) loss;
               added = metric_add c metric stats;
               updated = update_confmat c (fst added) targets prediction
           in train_batches c e rest (fst updated)
                (Some ((snd added)(''accuracy'' \<mapsto> snd updated)))
                (t\<lparr>model := fst stepped, optimizer := snd stepped\<rparr>)))"

definition train_epoch ::
  "('v, 'w, 'o, 'm) collab \<Rightarrow> ('v, 'w, 'o) trainer \<Rightarrow> int
     \<Rightarrow> (py_error + 'v stats) \<times> ('v, 'w, 'o) trainer" where
  "train_epoch c t e =
     (let t0 = t\<lparr>out := out t @ [TrainPass e]\<rparr>
      in case train_batches c e (batches (traindataloader t0)) (class_metric c (nclasses t0))
                None t0 of
           (Inl err, t1) \<Rightarrow> (Inl err, t1)
         | (Inr None, t1) \<Rightarrow> (Inl (UnboundLocalError ''stats''), t1)
         | (Inr (Some stats), t1) \<Rightarrow> (Inr stats, t1))"

text \<open>
  The batch loop of \<open>test_epoch\<close> changes no attribute. Its locals \<open>inputs\<close>,
  \<open>targets\<close>, \<open>logprobabilities\<close>, \<open>weights\<close> and \<open>stats\<close> are bound together by the loop
  body, and read after the loop.
\<close>

record 'v test_locals =
  tl_inputs :: 'v
  tl_targets :: 'v
  tl_logprobabilities :: 'v
  tl_weights :: 'v
  tl_stats :: "'v stats"

fun test_batches ::
  "('v, 'w, 'o, 'm) collab \<Rightarrow> ('v, 'w, 'o) trainer \<Rightarrow> int \<Rightarrow> ('v \<times> 'v) list \<Rightarrow> 'm
     \<Rightarrow> 'v test_locals option \<Rightarrow> py_error + ('m \<times> 'v test_locals option)" where
  "test_batches c t e [] metric bound = Inr (metric, bound)"
| "test_batches c t e ((inputs, targets) # rest) metric bound =
     (case loss_criterion c t inputs targets (Some e) (earliness_factor t) (entropy_factor t) of
        Inl err \<Rightarrow> Inl err
      | Inr None \<Rightarrow> Inl unpack_none
      | Inr (Some (loss, logprobabilities, weights, stats)) \<Rightarrow>
          (let prediction = predict c (model t) logprobabilities weights;
               added = metric_add c metric stats;
               updated = update_confmat c (fst added) targets prediction
           in test_batches c t e rest (fst updated)
                (Some \<lparr>tl_inputs = inputs, tl_targets = targets,
                       tl_logprobabilities = logprobabilities, tl_weights = weights,
                       tl_stats = (snd added)(''accuracy'' \<mapsto> snd updated)\<rparr>)))"

definition test_epoch ::
  "('v, 'w, 'o, 'm) collab \<Rightarrow> ('v, 'w, 'o) trainer \<Rightarrow> int
     \<Rightarrow> (py_error + 'v stats) \<times> ('v, 'w, 'o) trainer" where
  "test_epoch c t e =
     (let t0 = t\<lparr>out := out t @ [TestPass e]\<rparr>
      in case test_batches c t0 e (batches (validdataloader t0)) (class_metric c (nclasses t0))
                None of
           Inl err \<Rightarrow> (Inl err, t0)
         | Inr (metric, None) \<Rightarrow> (Inl (UnboundLocalError ''stats''), t0)
         | Inr (metric, Some l) \<Rightarrow>
             (Inr ((tl_stats l)
                     (''confusion_matrix'' \<mapsto> hist c metric,
                      ''targets'' \<mapsto> tl_targets l,
                      ''inputs'' \<mapsto> tl_inputs l,
                      ''weights'' \<mapsto> tl_weights l,
                      ''probas'' \<mapsto> exp_transpose c (tl_logprobabilities l))),
              t0))"

subsection \<open>The epoch loop\<close>

text \<open>
  The report step of \<open>fit\<close>. Reading the attribute \<open>visdom\<close> comes first, then the keys
  of \<open>stats\<close> in the order of the source; the loop over the samples reads three keys at
  every index. The plotting calls themselves and \<open>Printer.print\<close> change nothing of the
  trainer, and indexing a tensor does not raise.
\<close>

fun report_samples :: "'v stats \<Rightarrow> nat list \<Rightarrow> py_error option" where
  "report_samples stats [] = None"
| "report_samples stats (i # rest) =
     (case stats ''probas'' of
        None \<Rightarrow> Some (KeyError ''probas'')
      | Some probas \<Rightarrow>
          (case stats ''inputs'' of
             None \<Rightarrow> Some (KeyError ''inputs'')
           | Some inputs \<Rightarrow>
               (case stats ''weights'' of
                  None \<Rightarrow> Some (KeyError ''weights'')
                | Some weights \<Rightarrow> report_samples stats rest)))"

definition report ::
  "('v, 'w, 'o, 'm) collab \<Rightarrow> ('v, 'w, 'o) trainer \<Rightarrow> 'v stats \<Rightarrow> py_error option" where
  "report c t stats =
     (case visdom t of
        None \<Rightarrow> Some (AttributeError ''visdom'')
      | Some vis \<Rightarrow>
          (case stats ''confusion_matrix'' of
             None \<Rightarrow> Some (KeyError ''confusion_matrix'')
           | Some confusion_matrix \<Rightarrow>
               (case stats ''targets'' of
                  None \<Rightarrow> Some (KeyError ''targets'')
                | Some targets \<Rightarrow>
                    (let n_samples =
                           (if show_n_samples t < shape0 c targets then show_n_samples t
                            else shape0 c targets)
                     in report_samples stats [0 ..< nat n_samples]))))"

text \<open>
  One iteration of the \<open>while\<close> loop of \<open>fit\<close>, in two steps: the passes of the epoch
  (the event check and the increment, the train pass, the test pass when the epoch is a
  multiple of the cadence) give the stats that the report step then reads. Python's \<open>%\<close>
  raises on a zero divisor and otherwise is \<open>mod\<close> on \<open>int\<close> (the sign of the divisor).
\<close>

definition epoch_passes ::
  "('v, 'w, 'o, 'm) collab \<Rightarrow> ('v, 'w, 'o) trainer
     \<Rightarrow> (py_error + 'v stats) \<times> ('v, 'w, 'o) trainer" where
  "epoch_passes c t =
     (let t1 = new_epoch t;
          t2 = t1\<lparr>logger := set_mode (logger t1) ''train''\<rparr>
      in case train_epoch c t2 (epoch t2) of
           (Inl err, t3) \<Rightarrow> (Inl err, t3)
         | (Inr stats, t3) \<Rightarrow>
             if test_every_n_epochs t3 = 0 then (Inl ZeroDivisionError, t3)
             else if epoch t3 mod test_every_n_epochs t3 = 0 then
               (let t4 = t3\<lparr>logger := set_mode (logger t3) ''test''\<rparr>
                in case test_epoch c t4 (epoch t4) of
                     (Inl err, t5) \<Rightarrow> (Inl err, t5)
                   | (Inr test_stats, t5) \<Rightarrow>
                       (Inr test_stats,
                        t5\<lparr>logger := log (logger t5) test_stats (epoch t5)\<rparr>))
             else (Inr stats, t3))"

definition fit_epoch ::
  "('v, 'w, 'o, 'm) collab \<Rightarrow> ('v, 'w, 'o) trainer
     \<Rightarrow> py_error option \<times> ('v, 'w, 'o) trainer" where
  "fit_epoch c t =
     (case epoch_passes c t of
        (Inl err, t1) \<Rightarrow> (Some err, t1)
      | (Inr stats, t1) \<Rightarrow> (report c t1 stats, t1))"

text \<open>
  The loop of \<open>fit\<close>, and the event check after it. The source returns
  \<open>self.logger.data\<close>; here \<open>fit\<close> returns the trainer it leaves, whose logger holds that
  series. The loop ends: an iteration that does not raise adds one to the epoch counter
  and leaves the budget alone.
\<close>

function fit ::
  "('v, 'w, 'o, 'm) collab \<Rightarrow> ('v, 'w, 'o) trainer
     \<Rightarrow> py_error option \<times> ('v, 'w, 'o) trainer" where
  "fit c t =
     (if epoch t < epochs t then
        (case fit_epoch c t of
           (Some err, t1) \<Rightarrow> (Some err, t1)
         | (None, t1) \<Rightarrow> fit c t1)
      else (None, check_events t))"
  by pat_completeness auto
termination
proof (relation "measure (\<lambda>(c, t). nat (epochs t - epoch t))")
  show "wf (measure (\<lambda>(c :: ('v, 'w, 'o, 'm) collab, t :: ('v, 'w, 'o) trainer).
              nat (epochs t - epoch t)))"
    by simp
next
  fix c :: "('v, 'w, 'o, 'm) collab" and t :: "('v, 'w, 'o) trainer"
    and r t1
  assume lt: "epoch t < epochs t" and p: "(r, t1) = fit_epoch c t" and r: "r = None"
  have tb: "train_batches c e ds m b s = (r', s') \<Longrightarrow>
              epoch s' = epoch s \<and> epochs s' = epochs s" for e ds m b s r' s'
    by (induction c e ds m b s rule: train_batches.induct)
       (auto simp: Let_def split: sum.splits option.splits prod.splits)
  have ce: "epoch (check_events t) = epoch t \<and> epochs (check_events t) = epochs t"
    by (simp add: check_events_def starting_phase_classification_event_def
        starting_phase_earliness_event_def ending_phase_classification_event_def
        ending_phase_earliness_event_def py_print_def snapshot_def Let_def)
  from p have fe: "fit_epoch c t = (r, t1)" by simp
  have "epoch t1 = epoch t + 1 \<and> epochs t1 = epochs t"
    using fe ce
    by (auto simp: fit_epoch_def epoch_passes_def new_epoch_def train_epoch_def
        test_epoch_def Let_def
        split: sum.splits option.splits prod.splits if_splits dest!: tb)
  with lt show "((c, t1), (c, t)) \<in> measure (\<lambda>(c, t). nat (epochs t - epoch t))"
    by simp
qed

declare fit.simps [simp del]

subsection \<open>Reading the trace\<close>

text \<open>The checkpoint writes of a trace, the pass calls of a trace, the printed lines.\<close>

fun saves :: "effect list \<Rightarrow> (string \<times> int) list" where
  "saves [] = []"
| "saves (Saved f e # xs) = (f, e) # saves xs"
| "saves (x # xs) = saves xs"

fun passes :: "effect list \<Rightarrow> effect list" where
  "passes [] = []"
| "passes (TrainPass e # xs) = TrainPass e # passes xs"
| "passes (TestPass e # xs) = TestPass e # passes xs"
| "passes (x # xs) = passes xs"

fun prints :: "effect list \<Rightarrow> string list" where
  "prints [] = []"
| "prints (Print s # xs) = s # prints xs"
| "prints (x # xs) = prints xs"

subsection \<open>Concrete collaborators and trainers\<close>

text \<open>
  Collaborators over integers, for evaluating the model on concrete runs. The five losses
  of \<open>plain_collab\<close> return the loss values 1 to 5, the factors they were given in
  place of log-probabilities and weights, and empty stats; its accumulator folds nothing
  in, so the stats of a train pass hold the key \<open>accuracy\<close> only. The accumulator of \<open>full_collab\<close> adds the
  five keys that the report step reads.
\<close>

definition plain_collab :: "(int, unit, unit, unit) collab" where
  "plain_collab =
     \<lparr>loss_cross_entropy = (\<lambda>w x y. Inr (1, 0, 0, Map.empty)),
      early_loss = (\<lambda>w x y a. Inr (2, a, 0, Map.empty)),
      early_loss_simple = (\<lambda>w x y a. Inr (3, a, 0, Map.empty)),
      early_loss_linear = (\<lambda>w x y a b. Inr (4, a, b, Map.empty)),
      early_loss_cross_entropy = (\<lambda>w x y a b. Inr (5, a, b, Map.empty)),
      predict = (\<lambda>w l ws. 0),
      adam = (\<lambda>w lr. ()),
      backward_step = (\<lambda>w opt l. (w, opt)),
      class_metric = (\<lambda>n. ()),
      metric_add = (\<lambda>m st. (m, st)),
      update_confmat = (\<lambda>m y p. (m, 1)),
      hist = (\<lambda>m. 0),
      shape0 = (\<lambda>v. 1),
      exp_transpose = (\<lambda>v. v)\<rparr>"

definition full_collab :: "(int, unit, unit, unit) collab" where
  "full_collab =
     plain_collab
       \<lparr>metric_add :=
          (\<lambda>m st. (m, st(''confusion_matrix'' \<mapsto> 0, ''targets'' \<mapsto> 0, ''inputs'' \<mapsto> 0,
                         ''weights'' \<mapsto> 0, ''probas'' \<mapsto> 0)))\<rparr>"

definition one_batch :: "int dataloader" where
  "one_batch = \<lparr>batches = [(0, 0)], batch_size = 1, dataset_nclasses = 2\<rparr>"

definition no_batch :: "int dataloader" where
  "no_batch = \<lparr>batches = [], batch_size = 1, dataset_nclasses = 2\<rparr>"

text \<open>
  The arguments of a constructor call: epoch budget, switch epoch, test cadence,
  visualization target and loss mode are given, the rest is fixed.
\<close>

definition example_args ::
  "int \<Rightarrow> int \<Rightarrow> int \<Rightarrow> string option \<Rightarrow> string \<Rightarrow> int trainer_args" where
  "example_args n_epochs switch cadence env mode =
     \<lparr>arg_epochs = n_epochs,
      arg_switch_epoch = switch,
      arg_learning_rate = 1,
      arg_earliness_factor = 7,
      arg_entropy_factor = 3,
      arg_store = ''/tmp'',
      arg_test_every_n_epochs = cadence,
      arg_visdomenv = env,
      arg_show_n_samples = 1,
      arg_loss_mode = mode,
      arg_overwrite = True\<rparr>"


definition example_trainer ::
  "int \<Rightarrow> int \<Rightarrow> int \<Rightarrow> string option \<Rightarrow> string \<Rightarrow> (int, unit, unit) trainer" where
  "example_trainer n_epochs switch cadence env mode =
     snd (Trainer_init plain_collab () one_batch one_batch
            (example_args n_epochs switch cadence env mode) Map.empty [])"

text \<open>
  Runs for the claims on resuming. \<open>first_run\<close> is the trainer after a run of two epochs
  with the switch at epoch 1; \<open>resumed_trainer\<close> is a second trainer, constructed with
  \<open>overwrite=False\<close> over the files and the trace that the first left, so the constructor
  resumes from the classification slot. \<open>zero_run\<close> is the trainer after \<open>fit\<close> with an
  epoch budget of 0, and \<open>restored_zero\<close> that trainer after a snapshot to a file and a
  resume from it.
\<close>

definition first_run :: "(int, unit, unit) trainer" where
  "first_run =
     snd (fit plain_collab (example_trainer 2 1 1 (Some ''env'') ''twophase_linear_loss''))"

definition resumed_trainer :: "(int, unit, unit) trainer" where
  "resumed_trainer =
     snd (Trainer_init plain_collab () one_batch one_batch
            ((example_args 2 1 1 (Some ''env'') ''twophase_linear_loss'')
               \<lparr>arg_overwrite := False\<rparr>)
            (fs first_run) (out first_run))"

definition zero_run :: "(int, unit, unit) trainer" where
  "zero_run =
     snd (fit plain_collab (example_trainer 0 0 1 (Some ''env'') ''twophase_linear_loss''))"

definition restored_zero :: "(int, unit, unit) trainer" where
  "restored_zero = snd (resume (snapshot zero_run ''/tmp/saved.pth'') ''/tmp/saved.pth'')"

text \<open>
  The attributes that only the constructor assigns: the configuration of the trainer and
  its two data sources.
\<close>

definition settings ::
  "('v, 'w, 'o) trainer \<Rightarrow>
     int \<times> int \<times> int \<times> string \<times> string option \<times> string \<times> int \<times> 'v \<times> 'v \<times> nat
       \<times> 'v dataloader \<times> 'v dataloader" where
  "settings t =
     (epochs t, switch_epoch t, test_every_n_epochs t, store t, visdom t, lossmode t,
      show_n_samples t, earliness_factor t, entropy_factor t, nclasses t,
      traindataloader t, validdataloader t)"

subsection \<open>The pass schedule and the report keys\<close>


text \<open>
  The keys of \<open>stats\<close> that the report step of \<open>fit\<close> reads, in the order of the first
  read, and what a \<open>stats\<close> holds under them.
\<close>

definition report_keys :: "string list" where
  "report_keys = [''confusion_matrix'', ''targets'', ''probas'', ''inputs'', ''weights'']"

definition report_values :: "'v stats \<Rightarrow> 'v option list" where
  "report_values stats = map stats report_keys"

text \<open>
  Trainers for the claims on the loop: one with the test cadence \<open>-1\<close> and a budget of one
  epoch, one with a budget of no epoch, and one over data sources that yield no batch,
  constructed without a visualization target.
\<close>

definition negative_cadence_trainer :: "(int, unit, unit) trainer" where
  "negative_cadence_trainer =
     example_trainer 1 1 (- 1) (Some ''env'') ''twophase_linear_loss''"

definition no_epoch_trainer :: "(int, unit, unit) trainer" where
  "no_epoch_trainer = example_trainer 0 0 2 (Some ''env'') ''twophase_linear_loss''"

definition unfed_trainer :: "(int, unit, unit) trainer" where
  "unfed_trainer =
     snd (Trainer_init plain_collab () no_batch no_batch
            (example_args 4 2 1 None ''twophase_linear_loss'') Map.empty [])"

section \<open>Properties\<close>

subsection \<open>The concrete trainers\<close>

lemma example_trainer_fields:
  "epoch (example_trainer n s k v m) = 0"
  "epochs (example_trainer n s k v m) = n"
  "switch_epoch (example_trainer n s k v m) = s"
  "test_every_n_epochs (example_trainer n s k v m) = k"
  "visdom (example_trainer n s k v m) = v"
  "lossmode (example_trainer n s k v m) = m"
  "out (example_trainer n s k v m) = []"
  "earliness_factor (example_trainer n s k v m) = 7"
  "entropy_factor (example_trainer n s k v m) = 3"
  "model (example_trainer n s k v m) = ()"
  "store (example_trainer n s k v m) = ''/tmp''"
  by (simp_all add: example_trainer_def Trainer_init_def example_args_def Let_def)

subsection \<open>What each step changes\<close>

text \<open>
  The event check touches the trace and the checkpoint files, the train pass the weights and
  the optimizer, the test pass the trace only; the configuration is never written, and an
  iteration of the loop adds one to the epoch counter whether it raises or not.
\<close>

lemma saves_append [simp]: "saves (xs @ ys) = saves xs @ saves ys"
  by (induction xs rule: saves.induct) simp_all

lemma passes_append [simp]: "passes (xs @ ys) = passes xs @ passes ys"
  by (induction xs rule: passes.induct) simp_all

lemma prints_append [simp]: "prints (xs @ ys) = prints xs @ prints ys"
  by (induction xs rule: prints.induct) simp_all

lemmas event_defs =
  check_events_def starting_phase_classification_event_def
  starting_phase_earliness_event_def ending_phase_classification_event_def
  ending_phase_earliness_event_def py_print_def snapshot_def
  get_classification_model_name_def get_earliness_model_name_def

lemma check_events_frame:
  "settings (check_events t) = settings t"
  "epoch (check_events t) = epoch t"
  "passes (out (check_events t)) = passes (out t)"
  "logger (check_events t) = logger t"
  "model (check_events t) = model t"
  "optimizer (check_events t) = optimizer t"
  by (simp_all add: event_defs settings_def Let_def)

lemma check_events_saves:
  "saves (out (check_events t)) =
     saves (out t) @
       (if epoch t = 0 then []
        else if epoch t = switch_epoch t then [(get_classification_model_name t, epoch t)]
        else if epoch t = epochs t then [(get_earliness_model_name t, epoch t)]
        else [])"
  by (simp add: event_defs Let_def)

lemma check_events_prints:
  "prints (out (check_events t)) =
     prints (out t) @
       (if epoch t = 0 then [starting_classification_line]
        else if epoch t = switch_epoch t then
          [ending_classification_line, starting_earliness_line]
        else if epoch t = epochs t then [ending_earliness_line]
        else [])"
  by (simp add: event_defs Let_def)

lemma train_batches_frame:
  "train_batches c e ds m b t = (r, t') \<Longrightarrow>
     settings t' = settings t \<and> epoch t' = epoch t \<and> out t' = out t \<and> fs t' = fs t \<and>
     logger t' = logger t"
  by (induction c e ds m b t rule: train_batches.induct)
     (auto simp: Let_def settings_def split: sum.splits option.splits prod.splits)

lemma train_epoch_frame:
  "train_epoch c t e = (r, t') \<Longrightarrow>
     settings t' = settings t \<and> epoch t' = epoch t \<and> out t' = out t @ [TrainPass e] \<and>
     fs t' = fs t \<and> logger t' = logger t"
  by (auto simp: train_epoch_def Let_def settings_def
      split: sum.splits option.splits prod.splits dest!: train_batches_frame)

lemma test_epoch_frame:
  "test_epoch c t e = (r, t') \<Longrightarrow> t' = t\<lparr>out := out t @ [TestPass e]\<rparr>"
  by (auto simp: test_epoch_def Let_def split: sum.splits option.splits prod.splits)

lemma new_epoch_frame:
  "settings (new_epoch t) = settings t"
  "epoch (new_epoch t) = epoch t + 1"
  "out (new_epoch t) = out (check_events t)"
  "fs (new_epoch t) = fs (check_events t)"
  by (simp_all add: new_epoch_def Let_def settings_def check_events_frame [unfolded settings_def])

lemma epoch_passes_frame:
  assumes "epoch_passes c t = (r, t')"
  shows "settings t' = settings t" and "epoch t' = epoch t + 1"
    and "fs t' = fs (check_events t)"
    and "saves (out t') = saves (out (check_events t))"
    and "prints (out t') = prints (out (check_events t))"
proof -
  let ?t2 = "(new_epoch t)\<lparr>logger := set_mode (logger (new_epoch t)) ''train''\<rparr>"
  obtain r3 t3 where tr: "train_epoch c ?t2 (epoch ?t2) = (r3, t3)"
    by (cases "train_epoch c ?t2 (epoch ?t2)")
  note f3 = train_epoch_frame [OF tr]
  have s2: "settings ?t2 = settings t" "epoch ?t2 = epoch t + 1"
    "out ?t2 = out (check_events t)" "fs ?t2 = fs (check_events t)"
    using new_epoch_frame [of t] by (simp_all add: settings_def)
  have all: "settings t' = settings t \<and> epoch t' = epoch t + 1 \<and>
    fs t' = fs (check_events t) \<and> saves (out t') = saves (out (check_events t)) \<and>
    prints (out t') = prints (out (check_events t))"
  proof (cases r3)
    case (Inl err)
    with assms tr have "t' = t3" by (simp add: epoch_passes_def Let_def)
    with f3 s2 show ?thesis by simp
  next
    case (Inr stats)
    show ?thesis
    proof (cases "test_every_n_epochs t3 \<noteq> 0 \<and> epoch t3 mod test_every_n_epochs t3 = 0")
      case False
      with assms tr Inr have "t' = t3"
        by (auto simp: epoch_passes_def Let_def split: if_splits)
      with f3 s2 show ?thesis by simp
    next
      case True
      let ?t4 = "t3\<lparr>logger := set_mode (logger t3) ''test''\<rparr>"
      obtain r5 t5 where te: "test_epoch c ?t4 (epoch ?t4) = (r5, t5)"
        by (cases "test_epoch c ?t4 (epoch ?t4)")
      note f5 = test_epoch_frame [OF te]
      from assms tr Inr True te
      have "t' = t5 \<or> (\<exists>st. t' = t5\<lparr>logger := log (logger t5) st (epoch t5)\<rparr>)"
        by (auto simp: epoch_passes_def Let_def split: sum.splits)
      with f5 f3 s2 show ?thesis by (auto simp: settings_def)
    qed
  qed
  from all show "settings t' = settings t" and "epoch t' = epoch t + 1"
    and "fs t' = fs (check_events t)"
    and "saves (out t') = saves (out (check_events t))"
    and "prints (out t') = prints (out (check_events t))"
    by simp_all
qed

lemma fit_epoch_frame:
  assumes "fit_epoch c t = (r, t')"
  shows "settings t' = settings t" and "epoch t' = epoch t + 1"
    and "fs t' = fs (check_events t)"
    and "saves (out t') = saves (out (check_events t))"
    and "prints (out t') = prints (out (check_events t))"
proof -
  obtain r1 t1 where ep: "epoch_passes c t = (r1, t1)"
    by (cases "epoch_passes c t")
  with assms have "t' = t1"
    by (auto simp: fit_epoch_def split: sum.splits)
  with epoch_passes_frame [OF ep]
  show "settings t' = settings t" and "epoch t' = epoch t + 1"
    and "fs t' = fs (check_events t)"
    and "saves (out t') = saves (out (check_events t))"
    and "prints (out t') = prints (out (check_events t))"
    by simp_all
qed

subsection \<open>Checkpoint writes of a run\<close>

lemma settings_eqD:
  assumes "settings t' = settings t"
  shows "epochs t' = epochs t" and "switch_epoch t' = switch_epoch t"
    and "test_every_n_epochs t' = test_every_n_epochs t" and "store t' = store t"
    and "visdom t' = visdom t"
    and "get_classification_model_name t' = get_classification_model_name t"
    and "get_earliness_model_name t' = get_earliness_model_name t"
  using assms
  by (simp_all add: settings_def get_classification_model_name_def
      get_earliness_model_name_def)

lemma fit_unfold_loop:
  assumes "epoch t < epochs t" and "fit_epoch c t = (r1, t1)"
  shows "fit c t = (case r1 of Some err \<Rightarrow> (Some err, t1) | None \<Rightarrow> fit c t1)"
  using assms by (simp add: fit.simps [of c t] split: option.splits)

lemma fit_unfold_exit:
  assumes "\<not> epoch t < epochs t"
  shows "fit c t = (None, check_events t)"
  using assms by (simp add: fit.simps [of c t])

lemma fit_settings: "fit c t = (r, t') \<Longrightarrow> settings t' = settings t"
proof (induction c t rule: fit.induct)
  case (1 c t)
  show ?case
  proof (cases "epoch t < epochs t")
    case False
    with "1.prems" show ?thesis
      by (auto simp: fit_unfold_exit check_events_frame)
  next
    case True
    obtain r1 t1 where fe: "fit_epoch c t = (r1, t1)" by (cases "fit_epoch c t")
    note fr = fit_epoch_frame [OF fe]
    show ?thesis
    proof (cases r1)
      case None
      with "1.prems" True fe have "fit c t1 = (r, t')" by (simp add: fit_unfold_loop)
      with "1.IH" [OF True fe [symmetric] None] fr(1) show ?thesis by simp
    next
      case (Some err)
      with "1.prems" True fe have "t' = t1" by (simp add: fit_unfold_loop)
      with fr(1) show ?thesis by simp
    qed
  qed
qed

lemma fit_saves_after_switch:
  "fit c t = (None, t') \<Longrightarrow> switch_epoch t < epoch t \<Longrightarrow> 0 < epoch t \<Longrightarrow>
   epoch t \<le> epochs t \<Longrightarrow>
     saves (out t') = saves (out t) @ [(get_earliness_model_name t, epochs t)]"
proof (induction c t rule: fit.induct)
  case (1 c t)
  show ?case
  proof (cases "epoch t < epochs t")
    case False
    with "1.prems" have "t' = check_events t" and "epoch t = epochs t"
      by (simp_all add: fit_unfold_exit)
    with "1.prems" show ?thesis by (simp add: check_events_saves)
  next
    case True
    obtain r1 t1 where fe: "fit_epoch c t = (r1, t1)" by (cases "fit_epoch c t")
    note fr = fit_epoch_frame [OF fe]
    note se = settings_eqD [OF fr(1)]
    from "1.prems"(1) True fe have r1: "r1 = None" and run: "fit c t1 = (None, t')"
      by (auto simp: fit_unfold_loop split: option.splits)
    have "saves (out t') = saves (out t1) @ [(get_earliness_model_name t1, epochs t1)]"
      using "1.IH" [OF True fe [symmetric] r1 run] "1.prems" True fr(2) se by simp
    moreover have "saves (out t1) = saves (out t)"
      using fr(4) "1.prems" True by (simp add: check_events_saves)
    ultimately show ?thesis using se by simp
  qed
qed

lemma fit_saves_before_switch:
  "fit c t = (None, t') \<Longrightarrow> 0 \<le> epoch t \<Longrightarrow> epoch t \<le> switch_epoch t \<Longrightarrow>
   0 < switch_epoch t \<Longrightarrow> switch_epoch t < epochs t \<Longrightarrow>
     saves (out t') =
       saves (out t) @ [(get_classification_model_name t, switch_epoch t),
                        (get_earliness_model_name t, epochs t)]"
proof (induction c t rule: fit.induct)
  case (1 c t)
  from "1.prems" have True: "epoch t < epochs t" by simp
  obtain r1 t1 where fe: "fit_epoch c t = (r1, t1)" by (cases "fit_epoch c t")
  note fr = fit_epoch_frame [OF fe]
  note se = settings_eqD [OF fr(1)]
  from "1.prems"(1) True fe have r1: "r1 = None" and run: "fit c t1 = (None, t')"
    by (auto simp: fit_unfold_loop split: option.splits)
  show ?case
  proof (cases "epoch t = switch_epoch t")
    case True
    have "saves (out t') = saves (out t1) @ [(get_earliness_model_name t1, epochs t1)]"
      using fit_saves_after_switch [OF run] "1.prems" True fr(2) se by simp
    moreover have "saves (out t1) =
        saves (out t) @ [(get_classification_model_name t, switch_epoch t)]"
      using fr(4) "1.prems" True by (simp add: check_events_saves)
    ultimately show ?thesis using se by simp
  next
    case False
    have "saves (out t') =
        saves (out t1) @ [(get_classification_model_name t1, switch_epoch t1),
                          (get_earliness_model_name t1, epochs t1)]"
      using "1.IH" [OF \<open>epoch t < epochs t\<close> fe [symmetric] r1 run] "1.prems" False
        fr(2) se by simp
    moreover have "saves (out t1) = saves (out t)"
      using fr(4) "1.prems" False by (simp add: check_events_saves)
    ultimately show ?thesis using se by simp
  qed
qed

lemma path_join_inject: "path_join s a = path_join s b \<longleftrightarrow> a = b"
  by (simp add: path_join_def)

lemma model_names:
  "get_classification_model_name t = path_join (store t) ''model_classification.pth''"
  "get_earliness_model_name t = path_join (store t) ''model_earliness.pth''"
  "get_classification_model_name t \<noteq> get_earliness_model_name t"
  by (simp_all add: get_classification_model_name_def get_earliness_model_name_def
      CLASSIFICATION_PHASE_NAME_def EARLINESS_PHASE_NAME_def path_join_inject)

subsection \<open>Events of a run\<close>

lemma lines_distinct:
  "starting_classification_line \<noteq> ending_classification_line"
  "starting_classification_line \<noteq> starting_earliness_line"
  "starting_classification_line \<noteq> ending_earliness_line"
  "ending_classification_line \<noteq> starting_earliness_line"
  "ending_classification_line \<noteq> ending_earliness_line"
  "starting_earliness_line \<noteq> ending_earliness_line"
  by (simp_all add: starting_classification_line_def ending_classification_line_def
      starting_earliness_line_def ending_earliness_line_def)

lemma fit_after_switch:
  "fit c t = (r, t') \<Longrightarrow> 0 < epoch t \<Longrightarrow> switch_epoch t < epoch t \<Longrightarrow>
     \<exists>ps ss. prints (out t') = prints (out t) @ ps \<and> set ps \<subseteq> {ending_earliness_line} \<and>
             saves (out t') = saves (out t) @ ss \<and>
             set ss \<subseteq> {(get_earliness_model_name t, epochs t)}"
proof (induction c t rule: fit.induct)
  case (1 c t)
  have ev: "prints (out (check_events t)) = prints (out t) \<or>
            prints (out (check_events t)) = prints (out t) @ [ending_earliness_line]"
    "saves (out (check_events t)) = saves (out t) \<or>
     saves (out (check_events t)) = saves (out t) @ [(get_earliness_model_name t, epochs t)]"
    using "1.prems"(2,3) by (auto simp: check_events_prints check_events_saves)
  show ?case
  proof (cases "epoch t < epochs t")
    case False
    with "1.prems"(1) have "t' = check_events t" by (auto simp: fit_unfold_exit)
    with ev show ?thesis by auto
  next
    case True
    obtain r1 t1 where fe: "fit_epoch c t = (r1, t1)" by (cases "fit_epoch c t")
    note fr = fit_epoch_frame [OF fe]
    note se = settings_eqD [OF fr(1)]
    have now: "prints (out t1) = prints (out t)" "saves (out t1) = saves (out t)"
      using fr(4,5) "1.prems"(2,3) True
      by (simp_all add: check_events_prints check_events_saves)
    show ?thesis
    proof (cases r1)
      case (Some err)
      with "1.prems"(1) True fe have "t' = t1" by (simp add: fit_unfold_loop)
      with now show ?thesis by simp
    next
      case None
      with "1.prems"(1) True fe have run: "fit c t1 = (r, t')" by (simp add: fit_unfold_loop)
      from "1.IH" [OF True fe [symmetric] None run] "1.prems"(2,3) fr(2) se now
      show ?thesis by simp
    qed
  qed
qed

lemma fit_prints_positive:
  "fit c t = (r, t') \<Longrightarrow> 0 < epoch t \<Longrightarrow>
     \<exists>ps. prints (out t') = prints (out t) @ ps \<and> starting_classification_line \<notin> set ps"
proof (induction c t rule: fit.induct)
  case (1 c t)
  have ev: "\<exists>ps. prints (out (check_events t)) = prints (out t) @ ps \<and>
              starting_classification_line \<notin> set ps"
    using "1.prems"(2) by (simp add: check_events_prints lines_distinct)
  show ?case
  proof (cases "epoch t < epochs t")
    case False
    with "1.prems"(1) have "t' = check_events t" by (auto simp: fit_unfold_exit)
    with ev show ?thesis by simp
  next
    case True
    obtain r1 t1 where fe: "fit_epoch c t = (r1, t1)" by (cases "fit_epoch c t")
    note fr = fit_epoch_frame [OF fe]
    from ev fr(5) obtain ps where ps: "prints (out t1) = prints (out t) @ ps"
      "starting_classification_line \<notin> set ps" by auto
    show ?thesis
    proof (cases r1)
      case (Some err)
      with "1.prems"(1) True fe have "t' = t1" by (simp add: fit_unfold_loop)
      with ps show ?thesis by simp
    next
      case None
      with "1.prems"(1) True fe have run: "fit c t1 = (r, t')" by (simp add: fit_unfold_loop)
      from "1.IH" [OF True fe [symmetric] None run] "1.prems"(2) fr(2)
      obtain qs where "prints (out t') = prints (out t1) @ qs"
        "starting_classification_line \<notin> set qs" by auto
      with ps have "prints (out t') = prints (out t) @ (ps @ qs) \<and>
          starting_classification_line \<notin> set (ps @ qs)" by simp
      then show ?thesis by blast
    qed
  qed
qed

lemma fit_at_switch:
  assumes "fit c t = (r, t')" and "0 < epoch t" and "epoch t = switch_epoch t"
  shows "\<exists>ps ss. prints (out t') =
             prints (out t) @ [ending_classification_line, starting_earliness_line] @ ps \<and>
           set ps \<subseteq> {ending_earliness_line} \<and>
           saves (out t') =
             saves (out t) @ [(get_classification_model_name t, switch_epoch t)] @ ss \<and>
           set ss \<subseteq> {(get_earliness_model_name t, epochs t)}"
proof -
  have ev: "prints (out (check_events t)) =
              prints (out t) @ [ending_classification_line, starting_earliness_line]"
    "saves (out (check_events t)) =
       saves (out t) @ [(get_classification_model_name t, switch_epoch t)]"
    using assms(2,3) by (simp_all add: check_events_prints check_events_saves)
  show ?thesis
  proof (cases "epoch t < epochs t")
    case False
    with assms(1) have "t' = check_events t" by (auto simp: fit_unfold_exit)
    with ev show ?thesis by simp
  next
    case True
    obtain r1 t1 where fe: "fit_epoch c t = (r1, t1)" by (cases "fit_epoch c t")
    note fr = fit_epoch_frame [OF fe]
    note se = settings_eqD [OF fr(1)]
    show ?thesis
    proof (cases r1)
      case (Some err)
      with assms(1) True fe have "t' = t1" by (simp add: fit_unfold_loop)
      with ev fr(4,5) show ?thesis by simp
    next
      case None
      with assms(1) True fe have run: "fit c t1 = (r, t')" by (simp add: fit_unfold_loop)
      from fit_after_switch [OF run] assms(2,3) fr(2) se
      obtain ps ss where "prints (out t') = prints (out t1) @ ps"
        "set ps \<subseteq> {ending_earliness_line}" "saves (out t') = saves (out t1) @ ss"
        "set ss \<subseteq> {(get_earliness_model_name t, epochs t)}" by auto
      with ev fr(4,5) show ?thesis by simp
    qed
  qed
qed

lemma fit_at_zero:
  assumes "fit c t = (r, t')" and "epoch t = 0"
  shows "\<exists>ps. prints (out t') = prints (out t) @ starting_classification_line # ps \<and>
           starting_classification_line \<notin> set ps"
proof -
  have ev: "prints (out (check_events t)) = prints (out t) @ [starting_classification_line]"
    using assms(2) by (simp add: check_events_prints)
  show ?thesis
  proof (cases "epoch t < epochs t")
    case False
    with assms(1) have "t' = check_events t" by (auto simp: fit_unfold_exit)
    with ev show ?thesis by simp
  next
    case True
    obtain r1 t1 where fe: "fit_epoch c t = (r1, t1)" by (cases "fit_epoch c t")
    note fr = fit_epoch_frame [OF fe]
    show ?thesis
    proof (cases r1)
      case (Some err)
      with assms(1) True fe have "t' = t1" by (simp add: fit_unfold_loop)
      with ev fr(5) show ?thesis by simp
    next
      case None
      with assms(1) True fe have run: "fit c t1 = (r, t')" by (simp add: fit_unfold_loop)
      from fit_prints_positive [OF run] assms(2) fr(2)
      obtain ps where "prints (out t') = prints (out t1) @ ps"
        "starting_classification_line \<notin> set ps" by auto
      with ev fr(5) show ?thesis by simp
    qed
  qed
qed

lemma resume_restores:
  assumes "fs u f = Some ck"
  shows "resume u f =
           (None, u\<lparr>model := ck_weights ck, epoch := ck_epoch ck,
                    optimizer := ck_optimizer_state_dict ck,
                    logger := logger_resume (logger u) (ck_logged_data ck)\<rparr>)"
  using assms by (simp add: resume_def)

lemma count_list_only:
  "set xs \<subseteq> {a} \<Longrightarrow> b \<noteq> a \<Longrightarrow> count_list xs b = 0"
  by (auto simp: count_list_0_iff)

subsection \<open>Phase\<close>

text \<open>
  Claim C6. The phase is a function of the epoch counter and the switch epoch alone:
  \<open>get_phase\<close> gives the classification phase when the epoch counter is below
  \<open>switch_epoch\<close> and the earliness phase otherwise, the two names differ, and two
  trainers that agree on the epoch counter and on \<open>switch_epoch\<close> are in the same phase,
  whatever their other attributes. The record of attributes has no phase field.
\<close>

theorem get_phase_by_epoch:
  "(epoch t < switch_epoch t \<longrightarrow> get_phase t = CLASSIFICATION_PHASE_NAME) \<and>
   (switch_epoch t \<le> epoch t \<longrightarrow> get_phase t = EARLINESS_PHASE_NAME) \<and>
   CLASSIFICATION_PHASE_NAME \<noteq> EARLINESS_PHASE_NAME \<and>
   (\<forall>t' :: ('v, 'w, 'o) trainer.
      epoch t' = epoch t \<and> switch_epoch t' = switch_epoch t \<longrightarrow> get_phase t' = get_phase t)"
  by (simp add: get_phase_def CLASSIFICATION_PHASE_NAME_def EARLINESS_PHASE_NAME_def)

theorem get_phase_by_epoch_witness:
  "epoch (example_trainer 4 2 1 None ''twophase_linear_loss'') <
     switch_epoch (example_trainer 4 2 1 None ''twophase_linear_loss'') \<and>
   get_phase (example_trainer 4 2 1 None ''twophase_linear_loss'') = ''classification'' \<and>
   switch_epoch ((example_trainer 4 2 1 None ''twophase_linear_loss'')\<lparr>epoch := 3\<rparr>) \<le>
     epoch ((example_trainer 4 2 1 None ''twophase_linear_loss'')\<lparr>epoch := 3\<rparr>) \<and>
   get_phase ((example_trainer 4 2 1 None ''twophase_linear_loss'')\<lparr>epoch := 3\<rparr>) = ''earliness''"
  using get_phase_by_epoch [of "example_trainer 4 2 1 None ''twophase_linear_loss''"]
    get_phase_by_epoch [of "(example_trainer 4 2 1 None ''twophase_linear_loss'')\<lparr>epoch := 3\<rparr>"]
  by (auto simp: example_trainer_fields CLASSIFICATION_PHASE_NAME_def EARLINESS_PHASE_NAME_def)

subsection \<open>Loss dispatch\<close>

text \<open>
  Claim C4. With loss mode \<open>twophase_linear_loss\<close> and \<open>switch_epoch = 2\<close>, a dispatch
  with a non-null epoch argument and the configured factors, as the two passes call it,
  returns what the cross-entropy loss of the model returns when the epoch counter is 1,
  and what \<open>early_loss_linear\<close> returns, given the configured earliness factor as alpha
  and the configured entropy factor, when the epoch counter is 3.
\<close>

theorem twophase_linear_dispatch:
  assumes "lossmode t = ''twophase_linear_loss''" and "switch_epoch t = 2"
  shows "(epoch t = 1 \<longrightarrow>
            loss_criterion c t inputs targets (Some e) (earliness_factor t) (entropy_factor t) =
              returning (loss_cross_entropy c (model t) inputs targets)) \<and>
         (epoch t = 3 \<longrightarrow>
            loss_criterion c t inputs targets (Some e) (earliness_factor t) (entropy_factor t) =
              returning (early_loss_linear c (model t) inputs targets
                           (earliness_factor t) (entropy_factor t)))"
  using assms
  by (simp add: loss_criterion_def get_phase_def CLASSIFICATION_PHASE_NAME_def
      EARLINESS_PHASE_NAME_def)

theorem twophase_linear_dispatch_witness:
  "lossmode (example_trainer 4 2 1 None ''twophase_linear_loss'') = ''twophase_linear_loss'' \<and>
   switch_epoch (example_trainer 4 2 1 None ''twophase_linear_loss'') = 2 \<and>
   epoch ((example_trainer 4 2 1 None ''twophase_linear_loss'')\<lparr>epoch := 3\<rparr>) = 3 \<and>
   map_sum id (map_option fst)
     (loss_criterion plain_collab
        ((example_trainer 4 2 1 None ''twophase_linear_loss'')\<lparr>epoch := 3\<rparr>) 0 0 (Some 3) 7 3) =
     Inr (Some 4) \<and>
   map_sum id (map_option fst)
     (loss_criterion plain_collab
        ((example_trainer 4 2 1 None ''twophase_linear_loss'')\<lparr>epoch := 1\<rparr>) 0 0 (Some 1) 7 3) =
     Inr (Some 1)"
  using twophase_linear_dispatch
          [of "(example_trainer 4 2 1 None ''twophase_linear_loss'')\<lparr>epoch := 3\<rparr>"
              plain_collab 0 0 3]
        twophase_linear_dispatch
          [of "(example_trainer 4 2 1 None ''twophase_linear_loss'')\<lparr>epoch := 1\<rparr>"
              plain_collab 0 0 1]
  by (simp add: example_trainer_fields returning_def plain_collab_def)

text \<open>
  The message of the error names four modes. The mode \<open>loss_cross_entropy\<close>, which the
  dispatch accepts, is not among them.
\<close>

lemma wrong_loss_mode_names:
  "sublist ''early_reward'' wrong_loss_mode"
  "sublist ''twophase_early_reward'' wrong_loss_mode"
  "sublist ''twophase_linear_loss'' wrong_loss_mode"
  "sublist ''twophase_cross_entropy'' wrong_loss_mode"
  "\<not> sublist ''loss_cross_entropy'' wrong_loss_mode"
  by code_simp+




subsection \<open>The epoch passes\<close>

text \<open>
  Claim C10. With a training DataSource of zero batches \<open>train_epoch\<close> raises
  \<open>UnboundLocalError\<close> on \<open>stats\<close>, and so does \<open>test_epoch\<close> with a validation
  DataSource of zero batches: neither returns empty or default stats.
\<close>

theorem empty_datasource_unbound_stats:
  "(batches (traindataloader t) = [] \<longrightarrow>
      fst (train_epoch c t e) = Inl (UnboundLocalError ''stats'')) \<and>
   (batches (validdataloader t) = [] \<longrightarrow>
      fst (test_epoch c t e) = Inl (UnboundLocalError ''stats''))"
  by (simp add: train_epoch_def test_epoch_def Let_def)

theorem empty_datasource_unbound_stats_witness:
  "batches (traindataloader
     ((example_trainer 4 2 1 None ''twophase_linear_loss'')
        \<lparr>traindataloader := no_batch, validdataloader := no_batch\<rparr>)) = [] \<and>
   batches (validdataloader
     ((example_trainer 4 2 1 None ''twophase_linear_loss'')
        \<lparr>traindataloader := no_batch, validdataloader := no_batch\<rparr>)) = [] \<and>
   fst (train_epoch plain_collab
     ((example_trainer 4 2 1 None ''twophase_linear_loss'')
        \<lparr>traindataloader := no_batch, validdataloader := no_batch\<rparr>) 1) =
     Inl (UnboundLocalError ''stats'') \<and>
   fst (test_epoch plain_collab
     ((example_trainer 4 2 1 None ''twophase_linear_loss'')
        \<lparr>traindataloader := no_batch, validdataloader := no_batch\<rparr>) 1) =
     Inl (UnboundLocalError ''stats'')"
  using empty_datasource_unbound_stats
    [of "(example_trainer 4 2 1 None ''twophase_linear_loss'')
        \<lparr>traindataloader := no_batch, validdataloader := no_batch\<rparr>" plain_collab 1]
  by (simp add: no_batch_def)

subsection \<open>Checkpoints of a full run\<close>

text \<open>
  Claim C1, as stated, fails: with \<open>switch_epoch = epochs\<close> the last event check takes the
  branch of the switch epoch, so a full run writes the classification slot at that epoch
  and never the earliness slot.
\<close>

theorem no_earliness_write_when_switch_is_last_counterexample:
  "switch_epoch (example_trainer 4 4 1 (Some ''env'') ''twophase_linear_loss'') \<le>
     epochs (example_trainer 4 4 1 (Some ''env'') ''twophase_linear_loss'') \<and>
   fst (fit plain_collab (example_trainer 4 4 1 (Some ''env'') ''twophase_linear_loss'')) = None \<and>
   saves (out (snd (fit plain_collab
     (example_trainer 4 4 1 (Some ''env'') ''twophase_linear_loss'')))) =
     [(''/tmp/model_classification.pth'', 4)]"
  by code_simp

text \<open>
  Claim C1, amended. For every configuration with \<open>0 < switch_epoch < epochs\<close> and every
  test cadence, a run of \<open>fit\<close> from epoch 0 that returns adds exactly two checkpoint
  writes to the trace: first \<open>model_classification.pth\<close> with the epoch counter at
  \<open>switch_epoch\<close>, then \<open>model_earliness.pth\<close> with the epoch counter at \<open>epochs\<close>; the
  two files differ.
\<close>

theorem fit_checkpoint_writes:
  assumes "fit c t = (None, t')" and "epoch t = 0"
    and "0 < switch_epoch t" and "switch_epoch t < epochs t"
  shows "saves (out t') =
           saves (out t) @
             [(path_join (store t) ''model_classification.pth'', switch_epoch t),
              (path_join (store t) ''model_earliness.pth'', epochs t)] \<and>
         path_join (store t) ''model_classification.pth'' \<noteq>
           path_join (store t) ''model_earliness.pth''"
  using fit_saves_before_switch [OF assms(1)] assms(2-4)
  by (simp add: model_names(1,2) path_join_inject)

theorem fit_checkpoint_writes_witness:
  "fst (fit plain_collab (example_trainer 4 2 1 (Some ''env'') ''twophase_linear_loss'')) = None \<and>
   epoch (example_trainer 4 2 1 (Some ''env'') ''twophase_linear_loss'') = 0 \<and>
   0 < switch_epoch (example_trainer 4 2 1 (Some ''env'') ''twophase_linear_loss'') \<and>
   switch_epoch (example_trainer 4 2 1 (Some ''env'') ''twophase_linear_loss'') <
     epochs (example_trainer 4 2 1 (Some ''env'') ''twophase_linear_loss'') \<and>
   saves (out (snd (fit plain_collab
     (example_trainer 4 2 1 (Some ''env'') ''twophase_linear_loss'')))) =
     [(''/tmp/model_classification.pth'', 2), (''/tmp/model_earliness.pth'', 4)]"
proof -
  let ?t = "example_trainer 4 2 1 (Some ''env'') ''twophase_linear_loss''"
  have r: "fst (fit plain_collab ?t) = None" by code_simp
  then have run: "fit plain_collab ?t = (None, snd (fit plain_collab ?t))"
    by (metis prod.collapse)
  have h: "epoch ?t = 0" "0 < switch_epoch ?t" "switch_epoch ?t < epochs ?t"
    by (simp_all add: example_trainer_fields)
  from fit_checkpoint_writes [OF run h] r h show ?thesis
    by (simp add: example_trainer_fields path_join_def)
qed

subsection \<open>Resuming\<close>

text \<open>
  Claim C3, as stated, fails: the checkpoint of the classification slot holds the epoch
  counter \<open>switch_epoch\<close>, so the first event check of a run resumed from it takes the
  branch of the switch epoch again. The line of EndingClassification is printed a second
  time, the classification slot is written a second time, and the line of
  StartingEarliness is printed a second time.
\<close>

theorem resumed_run_replays_switch_events_counterexample:
  "epoch resumed_trainer = 1 \<and>
   count_list (prints (out resumed_trainer)) ending_classification_line = 1 \<and>
   count_list (prints (out resumed_trainer)) starting_earliness_line = 1 \<and>
   count_list (saves (out resumed_trainer)) (''/tmp/model_classification.pth'', 1) = 1 \<and>
   fst (fit plain_collab resumed_trainer) = None \<and>
   count_list (prints (out (snd (fit plain_collab resumed_trainer))))
     ending_classification_line = 2 \<and>
   count_list (prints (out (snd (fit plain_collab resumed_trainer))))
     starting_earliness_line = 2 \<and>
   count_list (saves (out (snd (fit plain_collab resumed_trainer))))
     (''/tmp/model_classification.pth'', 1) = 2"
  by code_simp

text \<open>
  Claim C3, amended. A resume from a checkpoint restores epoch counter, optimizer state
  and logged series, whatever the checkpoint holds. When the restored epoch counter is at
  least 1, a run of \<open>fit\<close> that continues from there, whether it returns or raises, never
  prints the line of StartingClassification; if moreover the restored epoch counter is
  past \<open>switch_epoch\<close>, the run prints neither the line of EndingClassification nor that
  of StartingEarliness and does not write the classification slot; and if it equals
  \<open>switch_epoch\<close>, as in the checkpoint of the classification slot, the run prints both
  lines once more and writes the classification slot once more.
\<close>

theorem resume_then_fit:
  assumes "fs u f = Some ck" and "fit c (snd (resume u f)) = (r, t')"
  shows "fst (resume u f) = None \<and>
         epoch (snd (resume u f)) = ck_epoch ck \<and>
         optimizer (snd (resume u f)) = ck_optimizer_state_dict ck \<and>
         get_data (logger (snd (resume u f))) = ck_logged_data ck \<and>
         (0 < ck_epoch ck \<longrightarrow>
            count_list (prints (out t')) starting_classification_line =
              count_list (prints (out u)) starting_classification_line \<and>
            (switch_epoch u < ck_epoch ck \<longrightarrow>
               count_list (prints (out t')) ending_classification_line =
                 count_list (prints (out u)) ending_classification_line \<and>
               count_list (prints (out t')) starting_earliness_line =
                 count_list (prints (out u)) starting_earliness_line \<and>
               count_list (map fst (saves (out t'))) (get_classification_model_name u) =
                 count_list (map fst (saves (out u))) (get_classification_model_name u)) \<and>
            (ck_epoch ck = switch_epoch u \<longrightarrow>
               count_list (prints (out t')) ending_classification_line =
                 count_list (prints (out u)) ending_classification_line + 1 \<and>
               count_list (prints (out t')) starting_earliness_line =
                 count_list (prints (out u)) starting_earliness_line + 1 \<and>
               count_list (map fst (saves (out t'))) (get_classification_model_name u) =
                 count_list (map fst (saves (out u))) (get_classification_model_name u) + 1))"
proof -
  let ?u1 = "snd (resume u f)"
  note rs = resume_restores [OF assms(1)]
  have u1: "epoch ?u1 = ck_epoch ck" "switch_epoch ?u1 = switch_epoch u" "out ?u1 = out u"
    "epochs ?u1 = epochs u"
    "get_classification_model_name ?u1 = get_classification_model_name u"
    "get_earliness_model_name ?u1 = get_earliness_model_name u"
    by (simp_all add: rs get_classification_model_name_def get_earliness_model_name_def)
  have restored: "fst (resume u f) = None"
    "optimizer ?u1 = ck_optimizer_state_dict ck"
    "get_data (logger ?u1) = ck_logged_data ck"
    by (simp_all add: rs get_data_def logger_resume_def)
  have start: "count_list (prints (out t')) starting_classification_line =
      count_list (prints (out u)) starting_classification_line"
    if pos: "0 < ck_epoch ck"
    using fit_prints_positive [OF assms(2)] pos u1
    by (auto simp: count_list_0_iff)
  have after: "count_list (prints (out t')) ending_classification_line =
        count_list (prints (out u)) ending_classification_line \<and>
      count_list (prints (out t')) starting_earliness_line =
        count_list (prints (out u)) starting_earliness_line \<and>
      count_list (map fst (saves (out t'))) (get_classification_model_name u) =
        count_list (map fst (saves (out u))) (get_classification_model_name u)"
    if pos: "0 < ck_epoch ck" and that: "switch_epoch u < ck_epoch ck"
  proof -
    from fit_after_switch [OF assms(2)] pos that u1
    obtain ps ss where ps: "prints (out t') = prints (out u) @ ps"
      "set ps \<subseteq> {ending_earliness_line}" and ss: "saves (out t') = saves (out u) @ ss"
      "set ss \<subseteq> {(get_earliness_model_name u, epochs u)}" by auto
    from ss(2) have "set (map fst ss) \<subseteq> {get_earliness_model_name u}" by auto
    then have "count_list (map fst ss) (get_classification_model_name u) = 0"
      by (rule count_list_only) (rule model_names(3))
    with ps ss(1) show ?thesis
      by (simp add: count_list_only lines_distinct lines_distinct [THEN not_sym])
  qed
  have at: "count_list (prints (out t')) ending_classification_line =
        count_list (prints (out u)) ending_classification_line + 1 \<and>
      count_list (prints (out t')) starting_earliness_line =
        count_list (prints (out u)) starting_earliness_line + 1 \<and>
      count_list (map fst (saves (out t'))) (get_classification_model_name u) =
        count_list (map fst (saves (out u))) (get_classification_model_name u) + 1"
    if pos: "0 < ck_epoch ck" and that: "ck_epoch ck = switch_epoch u"
  proof -
    from fit_at_switch [OF assms(2)] pos that u1
    obtain ps ss where ps: "prints (out t') =
        prints (out u) @ [ending_classification_line, starting_earliness_line] @ ps"
      "set ps \<subseteq> {ending_earliness_line}"
      and ss: "saves (out t') =
        saves (out u) @ [(get_classification_model_name u, switch_epoch u)] @ ss"
      "set ss \<subseteq> {(get_earliness_model_name u, epochs u)}" by auto
    from ss(2) have "set (map fst ss) \<subseteq> {get_earliness_model_name u}" by auto
    then have "count_list (map fst ss) (get_classification_model_name u) = 0"
      by (rule count_list_only) (rule model_names(3))
    with ps ss(1) show ?thesis
      by (simp add: count_list_only lines_distinct lines_distinct [THEN not_sym])
  qed
  from restored u1(1) start after at show ?thesis by blast
qed

theorem resume_then_fit_witness:
  "fs first_run ''/tmp/model_classification.pth'' \<noteq> None \<and>
   epoch (snd (resume first_run ''/tmp/model_classification.pth'')) = 1 \<and>
   count_list
     (prints (out (snd (fit plain_collab
        (snd (resume first_run ''/tmp/model_classification.pth''))))))
     starting_classification_line =
   count_list (prints (out first_run)) starting_classification_line \<and>
   count_list
     (prints (out (snd (fit plain_collab
        (snd (resume first_run ''/tmp/model_classification.pth''))))))
     ending_classification_line =
   count_list (prints (out first_run)) ending_classification_line + 1"
proof -
  let ?f = "''/tmp/model_classification.pth''"
  have "case fs first_run ?f of None \<Rightarrow> False | Some ck \<Rightarrow> ck_epoch ck = 1"
    by code_simp
  then obtain ck where ck: "fs first_run ?f = Some ck" "ck_epoch ck = 1"
    by (cases "fs first_run ?f") auto
  have sw: "switch_epoch first_run = 1" by code_simp
  obtain r t' where run: "fit plain_collab (snd (resume first_run ?f)) = (r, t')"
    by (cases "fit plain_collab (snd (resume first_run ?f))")
  from resume_then_fit [OF ck(1) run] ck sw run show ?thesis by simp
qed

text \<open>
  Claim C5, as stated, fails for a trainer state with epoch counter 0: after \<open>fit\<close> with
  an epoch budget of 0 the line of StartingClassification has been printed and the epoch
  counter is still 0; snapshot, resume and \<open>fit\<close> again print it a second time.
\<close>

theorem zero_epoch_snapshot_restarts_counterexample:
  "count_list (prints (out zero_run)) starting_classification_line = 1 \<and>
   epoch restored_zero = epoch zero_run \<and>
   count_list (prints (out restored_zero)) starting_classification_line = 1 \<and>
   count_list (prints (out (snd (fit plain_collab restored_zero))))
     starting_classification_line = 2"
  by code_simp

text \<open>
  Claim C5, amended. For every trainer state, a resume from the file that \<open>snapshot\<close>
  wrote restores epoch counter, logged series, optimizer state and weights to their
  values at save time. When the epoch counter at save time is at least 1, which holds at
  every checkpoint that the event check writes, a run of \<open>fit\<close> from the restored state
  never prints the line of StartingClassification; when it is 0, the run prints it once.
\<close>

theorem snapshot_resume_roundtrip:
  assumes "fs u f = fs (snapshot t f) f" and "fit c (snd (resume u f)) = (r, t')"
  shows "fst (resume u f) = None \<and>
         epoch (snd (resume u f)) = epoch t \<and>
         get_data (logger (snd (resume u f))) = get_data (logger t) \<and>
         optimizer (snd (resume u f)) = optimizer t \<and>
         model (snd (resume u f)) = model t \<and>
         (0 < epoch t \<longrightarrow>
            count_list (prints (out t')) starting_classification_line =
              count_list (prints (out u)) starting_classification_line) \<and>
         (epoch t = 0 \<longrightarrow>
            count_list (prints (out t')) starting_classification_line =
              count_list (prints (out u)) starting_classification_line + 1) \<and>
         (saves (out (check_events t)) \<noteq> saves (out t) \<longrightarrow> epoch t \<noteq> 0)"
proof -
  let ?ck = "\<lparr>ck_weights = model t, ck_optimizer_state_dict = optimizer t,
             ck_epoch = epoch t, ck_logged_data = get_data (logger t)\<rparr>"
  let ?u1 = "snd (resume u f)"
  from assms(1) have held: "fs u f = Some ?ck" by (simp add: snapshot_def)
  note rs = resume_restores [OF held]
  have restored: "fst (resume u f) = None" "epoch ?u1 = epoch t"
    "get_data (logger ?u1) = get_data (logger t)" "optimizer ?u1 = optimizer t"
    "model ?u1 = model t" "out ?u1 = out u"
    by (simp_all add: rs get_data_def logger_resume_def)
  have pos: "count_list (prints (out t')) starting_classification_line =
      count_list (prints (out u)) starting_classification_line" if "0 < epoch t"
    using fit_prints_positive [OF assms(2)] that restored(2,6)
    by (auto simp: count_list_0_iff)
  have zero: "count_list (prints (out t')) starting_classification_line =
      count_list (prints (out u)) starting_classification_line + 1" if "epoch t = 0"
    using fit_at_zero [OF assms(2)] that restored(2,6)
    by (auto simp: count_list_0_iff)
  have written: "epoch t \<noteq> 0" if "saves (out (check_events t)) \<noteq> saves (out t)"
    using that by (auto simp: check_events_saves)
  from restored pos zero written show ?thesis by blast
qed

theorem snapshot_resume_roundtrip_witness:
  "fs (snapshot first_run ''/tmp/saved.pth'') ''/tmp/saved.pth'' =
     fs (snapshot first_run ''/tmp/saved.pth'') ''/tmp/saved.pth'' \<and>
   0 < epoch first_run \<and>
   epoch (snd (resume (snapshot first_run ''/tmp/saved.pth'') ''/tmp/saved.pth'')) = 2 \<and>
   count_list
     (prints (out (snd (fit plain_collab
        (snd (resume (snapshot first_run ''/tmp/saved.pth'') ''/tmp/saved.pth''))))))
     starting_classification_line = 1"
proof -
  let ?f = "''/tmp/saved.pth''"
  let ?u = "snapshot first_run ?f"
  have e: "epoch first_run = 2" by code_simp
  have p: "count_list (prints (out ?u)) starting_classification_line = 1" by code_simp
  obtain r t' where run: "fit plain_collab (snd (resume ?u ?f)) = (r, t')"
    by (cases "fit plain_collab (snd (resume ?u ?f))")
  from snapshot_resume_roundtrip [OF refl run] e p run show ?thesis by simp
qed

subsection \<open>An iteration that raises\<close>

text \<open>The loop stops in the iteration that raises.\<close>

lemma fit_epoch_stops:
  assumes "epoch t < epochs t" and "fst (fit_epoch c t) \<noteq> None"
  shows "fit c t = fit_epoch c t"
proof -
  obtain r1 t1 where fe: "fit_epoch c t = (r1, t1)" by (cases "fit_epoch c t")
  with assms(2) obtain err where "r1 = Some err" by auto
  with fit_unfold_loop [OF assms(1) fe] fe show ?thesis by simp
qed

subsection \<open>The passes of a run\<close>









subsection \<open>The report step\<close>

text \<open>
  What the report step reads, and what an iteration does when the test pass does not run:
  the stats are those of the train pass.
\<close>

lemma report_samples_reads:
  assumes "report_samples stats (i # rest) = None"
  shows "stats ''probas'' \<noteq> None \<and> stats ''inputs'' \<noteq> None \<and> stats ''weights'' \<noteq> None"
  using assms by (auto split: option.splits)

lemma report_reads:
  assumes "report c t stats = None"
  shows "visdom t \<noteq> None" and "stats ''confusion_matrix'' \<noteq> None"
    and "stats ''targets'' \<noteq> None"
    and "stats ''targets'' = Some tg \<Longrightarrow> 0 < show_n_samples t \<Longrightarrow> 0 < shape0 c tg \<Longrightarrow>
           stats ''probas'' \<noteq> None \<and> stats ''inputs'' \<noteq> None \<and> stats ''weights'' \<noteq> None"
proof -
  from assms show "visdom t \<noteq> None" and "stats ''confusion_matrix'' \<noteq> None"
    and "stats ''targets'' \<noteq> None"
    by (auto simp: report_def split: option.splits)
  assume tg: "stats ''targets'' = Some tg" and pos: "0 < show_n_samples t" "0 < shape0 c tg"
  define n where "n = nat (if show_n_samples t < shape0 c tg then show_n_samples t
                           else shape0 c tg)"
  from pos have "0 < n" by (simp add: n_def)
  then have "[0 ..< n] = 0 # [Suc 0 ..< n]" by (simp add: upt_conv_Cons)
  moreover from assms tg have "report_samples stats [0 ..< n] = None"
    by (auto simp: report_def n_def Let_def split: option.splits)
  ultimately have "report_samples stats (0 # [Suc 0 ..< n]) = None" by simp
  then show "stats ''probas'' \<noteq> None \<and> stats ''inputs'' \<noteq> None \<and> stats ''weights'' \<noteq> None"
    by (rule report_samples_reads)
qed

lemma epoch_passes_train_stats:
  assumes ep: "epoch_passes c t = (Inr st, t1)"
    and nm: "(epoch t + 1) mod test_every_n_epochs t \<noteq> 0"
  shows "\<exists>s e s'. train_epoch c s e = (Inr st, s')"
proof -
  let ?t2 = "(new_epoch t)\<lparr>logger := set_mode (logger (new_epoch t)) ''train''\<rparr>"
  obtain r3 t3 where tr: "train_epoch c ?t2 (epoch ?t2) = (r3, t3)"
    by (cases "train_epoch c ?t2 (epoch ?t2)")
  note f3 = train_epoch_frame [OF tr]
  have s2: "settings ?t2 = settings t" "epoch ?t2 = epoch t + 1"
    using new_epoch_frame [of t] by (simp_all add: settings_def)
  from f3 s2 have s3: "test_every_n_epochs t3 = test_every_n_epochs t"
    "epoch t3 = epoch t + 1"
    by (simp_all add: settings_def)
  from ep tr s3 nm have "r3 = Inr st"
    by (auto simp: epoch_passes_def Let_def split: sum.splits if_splits)
  with tr show ?thesis by blast
qed

lemma epoch_passes_nonzero:
  assumes ep: "epoch_passes c t = (Inr st, t1)"
  shows "test_every_n_epochs t \<noteq> 0"
proof -
  let ?t2 = "(new_epoch t)\<lparr>logger := set_mode (logger (new_epoch t)) ''train''\<rparr>"
  obtain r3 t3 where tr: "train_epoch c ?t2 (epoch ?t2) = (r3, t3)"
    by (cases "train_epoch c ?t2 (epoch ?t2)")
  note f3 = train_epoch_frame [OF tr]
  have s2: "settings ?t2 = settings t"
    using new_epoch_frame [of t] by (simp_all add: settings_def)
  from f3 s2 have s3: "test_every_n_epochs t3 = test_every_n_epochs t"
    by (simp_all add: settings_def)
  from ep tr s3 show ?thesis
    by (auto simp: epoch_passes_def Let_def split: sum.splits if_splits)
qed

lemma fit_epoch_non_test:
  assumes lack: "\<forall>(s :: ('v, 'w, 'o) trainer) e st s'.
            train_epoch c s e = (Inr st, s') \<longrightarrow> st ''confusion_matrix'' = None"
    and nm: "test_every_n_epochs t = 0 \<or> (epoch t + 1) mod test_every_n_epochs t \<noteq> 0"
  shows "fst (fit_epoch c (t :: ('v, 'w, 'o) trainer)) \<noteq> None"
proof -
  obtain r1 t1 where ep: "epoch_passes c t = (r1, t1)" by (cases "epoch_passes c t")
  show ?thesis
  proof (cases r1)
    case (Inl err)
    with ep show ?thesis by (simp add: fit_epoch_def)
  next
    case (Inr st)
    with ep have ep': "epoch_passes c t = (Inr st, t1)" by simp
    from epoch_passes_nonzero [OF ep'] nm
    have "(epoch t + 1) mod test_every_n_epochs t \<noteq> 0" by simp
    from epoch_passes_train_stats [OF ep' this] lack
    have "st ''confusion_matrix'' = None" by blast
    then have "report c t1 st \<noteq> None" by (auto simp: report_def split: option.splits)
    with ep' show ?thesis by (simp add: fit_epoch_def)
  qed
qed

lemma fit_epoch_key_error:
  assumes lack: "\<forall>(s :: ('v, 'w, 'o) trainer) e st s'.
            train_epoch c s e = (Inr st, s') \<longrightarrow> st ''confusion_matrix'' = None"
    and nm: "(epoch t + 1) mod test_every_n_epochs t \<noteq> 0"
    and ep: "epoch_passes c (t :: ('v, 'w, 'o) trainer) = (Inr st, t1)"
    and vis: "visdom t \<noteq> None"
  shows "fit_epoch c t = (Some (KeyError ''confusion_matrix''), t1)"
proof -
  from epoch_passes_train_stats [OF ep nm] lack
  have "st ''confusion_matrix'' = None" by blast
  moreover from epoch_passes_frame(1) [OF ep] vis have "visdom t1 \<noteq> None"
    by (simp add: settings_def)
  ultimately have "report c t1 st = Some (KeyError ''confusion_matrix'')"
    by (auto simp: report_def split: option.splits)
  with ep show ?thesis by (simp add: fit_epoch_def)
qed

lemma fit_returns_divides:
  "\<forall>(s :: ('v, 'w, 'o) trainer) e st s'.
      train_epoch c s e = (Inr st, s') \<longrightarrow> st ''confusion_matrix'' = None \<Longrightarrow>
   fit c (t :: ('v, 'w, 'o) trainer) = (None, t') \<Longrightarrow> epoch t < e \<Longrightarrow> e \<le> epochs t \<Longrightarrow>
     test_every_n_epochs t \<noteq> 0 \<and> e mod test_every_n_epochs t = 0"
proof (induction c t rule: fit.induct)
  case (1 c t)
  from "1.prems" have True: "epoch t < epochs t" by simp
  obtain r1 t1 where fe: "fit_epoch c t = (r1, t1)" by (cases "fit_epoch c t")
  note fr = fit_epoch_frame [OF fe]
  note se = settings_eqD [OF fr(1)]
  from "1.prems"(2) True fe have r1: "r1 = None" and run: "fit c t1 = (None, t')"
    by (auto simp: fit_unfold_loop split: option.splits)
  have here: "test_every_n_epochs t \<noteq> 0 \<and> (epoch t + 1) mod test_every_n_epochs t = 0"
    using fit_epoch_non_test [of c t, OF "1.prems"(1)] fe r1 by auto
  show ?case
  proof (cases "e = epoch t + 1")
    case True
    with here show ?thesis by simp
  next
    case False
    with "1.prems" fr(2) se have "epoch t1 < e" "e \<le> epochs t1" by simp_all
    from "1.IH" [OF True fe [symmetric] r1 "1.prems"(1) run this] se show ?thesis by simp
  qed
qed

lemma plain_collab_loss_stats:
  "loss_criterion plain_collab t i tg ea a b = Inr (Some (l, lp, w, s)) \<Longrightarrow> s = Map.empty"
  by (auto simp: loss_criterion_def returning_def plain_collab_def split: if_splits)

lemma plain_collab_train_batches:
  "train_batches plain_collab e ds m b t = (Inr (Some st), t') \<Longrightarrow>
   (\<And>s. b = Some s \<Longrightarrow> s k = None) \<Longrightarrow> k \<noteq> ''accuracy'' \<Longrightarrow> st k = None"
proof (induction ds arbitrary: m b t)
  case Nil
  then show ?case by simp
next
  case (Cons d ds)
  obtain inputs targets where d: "d = (inputs, targets)" by (cases d)
  show ?case
  proof (cases "loss_criterion plain_collab t inputs targets (Some e) (earliness_factor t)
                  (entropy_factor t)")
    case (Inl err)
    with Cons.prems(1) d show ?thesis by simp
  next
    case (Inr res)
    show ?thesis
    proof (cases res)
      case None
      with Cons.prems(1) d Inr show ?thesis by simp
    next
      case (Some r)
      obtain l lp w s where r: "r = (l, lp, w, s)" by (cases r)
      from Inr Some r have s: "s = Map.empty" by (simp add: plain_collab_loss_stats)
      from Cons.prems(1) d Inr Some r
      obtain m' t1 where run: "train_batches plain_collab e ds m'
            (Some ((snd (metric_add plain_collab m s))
               (''accuracy'' \<mapsto> snd (update_confmat plain_collab
                   (fst (metric_add plain_collab m s)) targets
                   (predict plain_collab (model t) lp w))))) t1 = (Inr (Some st), t')"
        by (simp add: Let_def)
      show ?thesis
        by (rule Cons.IH [OF run]) (use s Cons.prems(3) in \<open>auto simp: plain_collab_def\<close>)
    qed
  qed
qed

lemma plain_collab_train_stats:
  "train_epoch plain_collab t e = (Inr st, t') \<Longrightarrow> k \<noteq> ''accuracy'' \<Longrightarrow> st k = None"
  by (auto simp: train_epoch_def Let_def split: sum.splits option.splits prod.splits
      dest!: plain_collab_train_batches [where k = k])

text \<open>
  Claim C8, as stated, fails. With the test cadence \<open>-1\<close>, which divides every epoch, and
  train stats that hold none of the five keys, a run of one epoch returns: the cadence
  need not be 1. With a budget of no epoch a run returns with the cadence 2. And what the
  stats of the train pass contain is decided by the metric accumulator: with one whose
  \<open>add\<close> returns the five keys, a run of four epochs with the cadence 2 returns.
\<close>

theorem cadence_other_than_one_completes_counterexample:
  "epoch negative_cadence_trainer = 0 \<and> epochs negative_cadence_trainer = 1 \<and>
   test_every_n_epochs negative_cadence_trainer = - 1 \<and>
   map_sum id report_values
     (fst (train_epoch plain_collab (new_epoch negative_cadence_trainer) 1)) =
     Inr [None, None, None, None, None] \<and>
   fst (fit plain_collab negative_cadence_trainer) = None \<and>
   passes (out (snd (fit plain_collab negative_cadence_trainer))) =
     [TrainPass 1, TestPass 1] \<and>
   epochs no_epoch_trainer = 0 \<and> test_every_n_epochs no_epoch_trainer = 2 \<and>
   fst (fit plain_collab no_epoch_trainer) = None \<and>
   map_sum id report_values
     (fst (train_epoch full_collab
             (new_epoch (example_trainer 4 2 2 (Some ''env'') ''twophase_linear_loss'')) 1)) =
     Inr [Some 0, Some 0, Some 0, Some 0, Some 0] \<and>
   fst (fit full_collab (example_trainer 4 2 2 (Some ''env'') ''twophase_linear_loss'')) =
     None"
proof -
  have "epoch negative_cadence_trainer = 0" "epochs negative_cadence_trainer = 1"
    "test_every_n_epochs negative_cadence_trainer = - 1"
    "epochs no_epoch_trainer = 0" "test_every_n_epochs no_epoch_trainer = 2"
    by (simp_all add: negative_cadence_trainer_def no_epoch_trainer_def example_trainer_fields)
  moreover have "map_sum id report_values
     (fst (train_epoch plain_collab (new_epoch negative_cadence_trainer) 1)) =
     Inr [None, None, None, None, None]"
    by code_simp
  moreover have "fst (fit plain_collab negative_cadence_trainer) = None"
    by code_simp
  moreover have "passes (out (snd (fit plain_collab negative_cadence_trainer))) =
     [TrainPass 1, TestPass 1]"
    by code_simp
  moreover have "fst (fit plain_collab no_epoch_trainer) = None"
    by code_simp
  moreover have "map_sum id report_values
     (fst (train_epoch full_collab
             (new_epoch (example_trainer 4 2 2 (Some ''env'') ''twophase_linear_loss'')) 1)) =
     Inr [Some 0, Some 0, Some 0, Some 0, Some 0]"
    by code_simp
  moreover have
    "fst (fit full_collab (example_trainer 4 2 2 (Some ''env'') ''twophase_linear_loss'')) =
     None"
    by code_simp
  ultimately show ?thesis by simp
qed

text \<open>
  Claim C8, amended. The report step needs the keys \<open>confusion_matrix\<close> and \<open>targets\<close>
  in the stats it is given and, when a sample is shown, \<open>probas\<close>, \<open>inputs\<close> and
  \<open>weights\<close>: it raises when one is missing. When the stats that \<open>train_epoch\<close> returns
  never contain \<open>confusion_matrix\<close>, then on every epoch in which the test pass does not
  run (the cadence is not zero and the epoch is not a multiple of it) \<open>fit\<close> fails on that
  epoch instead of looping, with \<open>KeyError\<close> for that key when the passes return and the
  \<open>visdom\<close> attribute is there. So \<open>fit\<close> returns only when the cadence is not zero and
  divides every epoch after the one it starts at up to the budget: for a run from epoch 0
  with a budget of at least one epoch, the cadence is 1 or \<open>-1\<close>.
\<close>

theorem non_test_epoch_fails:
  fixes c :: "('v, 'w, 'o, 'm) collab" and t :: "('v, 'w, 'o) trainer"
  assumes lack: "\<forall>(s :: ('v, 'w, 'o) trainer) e st s'.
            train_epoch c s e = (Inr st, s') \<longrightarrow> st ''confusion_matrix'' = None"
  shows "(test_every_n_epochs t \<noteq> 0 \<and> (epoch t + 1) mod test_every_n_epochs t \<noteq> 0 \<longrightarrow>
            fst (fit_epoch c t) \<noteq> None \<and>
            (epoch t < epochs t \<longrightarrow>
               fit c t = fit_epoch c t \<and> epoch (snd (fit c t)) = epoch t + 1) \<and>
            (\<forall>st t1. epoch_passes c t = (Inr st, t1) \<and> visdom t \<noteq> None \<longrightarrow>
               fit_epoch c t = (Some (KeyError ''confusion_matrix''), t1))) \<and>
         (fst (fit c t) = None \<longrightarrow>
            (\<forall>e. epoch t < e \<and> e \<le> epochs t \<longrightarrow>
               test_every_n_epochs t \<noteq> 0 \<and> e mod test_every_n_epochs t = 0)) \<and>
         (fst (fit c t) = None \<and> epoch t = 0 \<and> 1 \<le> epochs t \<longrightarrow>
            test_every_n_epochs t = 1 \<or> test_every_n_epochs t = - 1) \<and>
         (\<forall>st. report c t st = None \<longrightarrow>
            st ''confusion_matrix'' \<noteq> None \<and> st ''targets'' \<noteq> None \<and>
            (\<forall>tg. st ''targets'' = Some tg \<and> 0 < show_n_samples t \<and> 0 < shape0 c tg \<longrightarrow>
               st ''probas'' \<noteq> None \<and> st ''inputs'' \<noteq> None \<and> st ''weights'' \<noteq> None))"
proof -
  have reads: "\<forall>st. report c t st = None \<longrightarrow>
            st ''confusion_matrix'' \<noteq> None \<and> st ''targets'' \<noteq> None \<and>
            (\<forall>tg. st ''targets'' = Some tg \<and> 0 < show_n_samples t \<and> 0 < shape0 c tg \<longrightarrow>
               st ''probas'' \<noteq> None \<and> st ''inputs'' \<noteq> None \<and> st ''weights'' \<noteq> None)"
    using report_reads(2,3,4) [of c t] by blast
  have div: "test_every_n_epochs t \<noteq> 0 \<and> e mod test_every_n_epochs t = 0"
    if "fst (fit c t) = None" and "epoch t < e" and "e \<le> epochs t" for e
  proof -
    from that(1) have "fit c t = (None, snd (fit c t))" by (metis prod.collapse)
    from fit_returns_divides [of c t, OF lack this that(2,3)] show ?thesis .
  qed
  have one: "test_every_n_epochs t = 1 \<or> test_every_n_epochs t = - 1"
    if "fst (fit c t) = None" and "epoch t = 0" and "1 \<le> epochs t"
  proof -
    from div [of 1] that have "test_every_n_epochs t dvd 1"
      by (simp add: mod_eq_0_iff_dvd)
    then have "\<bar>test_every_n_epochs t\<bar> = 1" by (simp add: zdvd1_eq)
    then show ?thesis by arith
  qed
  have nt: "fst (fit_epoch c t) \<noteq> None \<and>
            (epoch t < epochs t \<longrightarrow>
               fit c t = fit_epoch c t \<and> epoch (snd (fit c t)) = epoch t + 1) \<and>
            (\<forall>st t1. epoch_passes c t = (Inr st, t1) \<and> visdom t \<noteq> None \<longrightarrow>
               fit_epoch c t = (Some (KeyError ''confusion_matrix''), t1))"
    if nz: "test_every_n_epochs t \<noteq> 0" and nm: "(epoch t + 1) mod test_every_n_epochs t \<noteq> 0"
  proof -
    have f: "fst (fit_epoch c t) \<noteq> None"
      using fit_epoch_non_test [of c t, OF lack] nm by simp
    have st: "epoch t < epochs t \<longrightarrow>
            fit c t = fit_epoch c t \<and> epoch (snd (fit c t)) = epoch t + 1"
    proof
      assume lt: "epoch t < epochs t"
      have eq: "fit c t = fit_epoch c t" by (rule fit_epoch_stops [OF lt f])
      have "epoch (snd (fit_epoch c t)) = epoch t + 1"
        by (rule fit_epoch_frame(2) [of c t "fst (fit_epoch c t)"]) simp
      with eq show "fit c t = fit_epoch c t \<and> epoch (snd (fit c t)) = epoch t + 1"
        by simp
    qed
    have ke: "\<forall>st t1. epoch_passes c t = (Inr st, t1) \<and> visdom t \<noteq> None \<longrightarrow>
               fit_epoch c t = (Some (KeyError ''confusion_matrix''), t1)"
      using fit_epoch_key_error [of c t, OF lack nm] by blast
    show ?thesis by (rule conjI [OF f conjI [OF st ke]])
  qed
  from nt div one reads show ?thesis by blast
qed

theorem non_test_epoch_fails_witness:
  "test_every_n_epochs (example_trainer 4 2 2 (Some ''env'') ''twophase_linear_loss'') = 2 \<and>
   epoch (example_trainer 4 2 2 (Some ''env'') ''twophase_linear_loss'') = 0 \<and>
   fit plain_collab (example_trainer 4 2 2 (Some ''env'') ''twophase_linear_loss'') =
     fit_epoch plain_collab (example_trainer 4 2 2 (Some ''env'') ''twophase_linear_loss'') \<and>
   fst (fit plain_collab (example_trainer 4 2 2 (Some ''env'') ''twophase_linear_loss'')) =
     Some (KeyError ''confusion_matrix'') \<and>
   epoch (snd (fit plain_collab
     (example_trainer 4 2 2 (Some ''env'') ''twophase_linear_loss''))) = 1 \<and>
   passes (out (snd (fit plain_collab
     (example_trainer 4 2 2 (Some ''env'') ''twophase_linear_loss'')))) = [TrainPass 1] \<and>
   epoch (example_trainer 3 1 1 (Some ''env'') ''twophase_linear_loss'') = 0 \<and>
   1 \<le> epochs (example_trainer 3 1 1 (Some ''env'') ''twophase_linear_loss'') \<and>
   fst (fit plain_collab (example_trainer 3 1 1 (Some ''env'') ''twophase_linear_loss'')) =
     None \<and>
   test_every_n_epochs (example_trainer 3 1 1 (Some ''env'') ''twophase_linear_loss'') = 1"
proof -
  let ?T = "example_trainer 4 2 2 (Some ''env'') ''twophase_linear_loss''"
  let ?U = "example_trainer 3 1 1 (Some ''env'') ''twophase_linear_loss''"
  have lack: "\<forall>(s :: (int, unit, unit) trainer) e st s'.
      train_epoch plain_collab s e = (Inr st, s') \<longrightarrow> st ''confusion_matrix'' = None"
    using plain_collab_train_stats [where k = "''confusion_matrix''"] by auto
  have T: "test_every_n_epochs ?T = 2" "epoch ?T = 0" "epochs ?T = 4" "visdom ?T = Some ''env''"
    and U: "epoch ?U = 0" "epochs ?U = 3" "test_every_n_epochs ?U = 1"
    by (simp_all add: example_trainer_fields)
  have ret: "\<not> isl (fst (epoch_passes plain_collab ?T))" by code_simp
  then obtain st t1 where ep: "epoch_passes plain_collab ?T = (Inr st, t1)"
    by (cases "epoch_passes plain_collab ?T"; cases "fst (epoch_passes plain_collab ?T)") auto
  have fin: "fst (fit plain_collab ?U) = None" by code_simp
  have ps: "passes (out (snd (fit plain_collab ?T))) = [TrainPass 1]" by code_simp
  note thT = non_test_epoch_fails [of plain_collab ?T, OF lack]
  note thU = non_test_epoch_fails [of plain_collab ?U, OF lack]
  have pre: "test_every_n_epochs ?T \<noteq> 0 \<and> (epoch ?T + 1) mod test_every_n_epochs ?T \<noteq> 0"
    and lt: "epoch ?T < epochs ?T"
    using T by simp_all
  note X = mp [OF conjunct1 [OF thT] pre]
  note BC = mp [OF conjunct1 [OF conjunct2 [OF X]] lt]
  from conjunct2 [OF conjunct2 [OF X]] ep T
  have fe: "fit_epoch plain_collab ?T = (Some (KeyError ''confusion_matrix''), t1)"
    by simp
  with conjunct1 [OF BC]
  have err: "fst (fit plain_collab ?T) = Some (KeyError ''confusion_matrix'')" by simp
  from conjunct2 [OF BC] T have ep1: "epoch (snd (fit plain_collab ?T)) = 1" by simp
  from conjunct1 [OF conjunct2 [OF conjunct2 [OF thU]]] fin U
  have "test_every_n_epochs ?U = 1 \<or> test_every_n_epochs ?U = - 1" by simp
  from T(1,2) conjunct1 [OF BC] err ep1 ps U fin show ?thesis by simp
qed

subsection \<open>Running without a visualization target\<close>

lemma Trainer_init_visdom:
  "visdom (snd (Trainer_init c w trainl validl a files trace)) = arg_visdomenv a"
  by (simp add: Trainer_init_def Let_def resume_def py_print_def split: option.splits)

lemma fit_epoch_no_visdom:
  assumes "visdom t = None"
  shows "fst (fit_epoch c t) \<noteq> None"
    and "epoch_passes c t = (Inr st, t1) \<Longrightarrow>
           fit_epoch c t = (Some (AttributeError ''visdom''), t1)"
    and "epoch_passes c t = (Inl err, t1) \<Longrightarrow> fit_epoch c t = (Some err, t1)"
proof -
  have rep: "report c t1 st = Some (AttributeError ''visdom'')"
    if "epoch_passes c t = (Inr st, t1)" for st t1
  proof -
    from epoch_passes_frame(1) [OF that] assms have "visdom t1 = None"
      by (simp add: settings_def)
    then show ?thesis by (simp add: report_def)
  qed
  show "epoch_passes c t = (Inr st, t1) \<Longrightarrow>
          fit_epoch c t = (Some (AttributeError ''visdom''), t1)"
    using rep by (simp add: fit_epoch_def)
  show "epoch_passes c t = (Inl err, t1) \<Longrightarrow> fit_epoch c t = (Some err, t1)"
    by (simp add: fit_epoch_def)
  obtain r2 t2 where ep: "epoch_passes c t = (r2, t2)" by (cases "epoch_passes c t")
  show "fst (fit_epoch c t) \<noteq> None"
  proof (cases r2)
    case (Inl e)
    with ep show ?thesis by (simp add: fit_epoch_def)
  next
    case (Inr s)
    with ep rep [of s t2] show ?thesis by (simp add: fit_epoch_def)
  qed
qed

text \<open>
  Claim C9, as stated, fails: a trainer constructed without a visualization target and
  with a budget of no epoch runs \<open>fit\<close> to its end, with no report step at all; and over a
  training source that yields no batch the first epoch fails in the train pass, before
  its report step.
\<close>

theorem no_epoch_left_without_visdom_counterexample:
  "arg_visdomenv (example_args 0 0 1 None ''twophase_linear_loss'') = None \<and>
   visdom (example_trainer 0 0 1 None ''twophase_linear_loss'') = None \<and>
   fst (fit plain_collab (example_trainer 0 0 1 None ''twophase_linear_loss'')) = None \<and>
   visdom unfed_trainer = None \<and>
   fst (fit plain_collab unfed_trainer) = Some (UnboundLocalError ''stats'') \<and>
   passes (out (snd (fit plain_collab unfed_trainer))) = [TrainPass 1]"
proof -
  have "arg_visdomenv (example_args 0 0 1 None ''twophase_linear_loss'') = None"
    by (simp add: example_args_def)
  moreover have "visdom (example_trainer 0 0 1 None ''twophase_linear_loss'') = None"
    by (simp add: example_trainer_fields)
  moreover have
    "fst (fit plain_collab (example_trainer 0 0 1 None ''twophase_linear_loss'')) = None"
    by code_simp
  moreover have "visdom unfed_trainer = None"
    by (simp add: unfed_trainer_def Trainer_init_visdom example_args_def)
  moreover have "fst (fit plain_collab unfed_trainer) = Some (UnboundLocalError ''stats'')"
    by code_simp
  moreover have "passes (out (snd (fit plain_collab unfed_trainer))) = [TrainPass 1]"
    by code_simp
  ultimately show ?thesis by simp
qed

text \<open>
  Claim C9, amended. The constructor assigns the \<open>visdom\<close> attribute only from a given
  visualization target, and the report step reads it before anything else. So a trainer
  constructed without one, with an epoch left to run, fails in the first epoch that
  \<open>fit\<close> runs and starts no second one: in the report step, with \<open>AttributeError\<close>, when the
  passes of that epoch return, and with the error of the pass otherwise. With no epoch
  left to run \<open>fit\<close> returns.
\<close>

theorem fit_without_visdom:
  assumes "visdom t = None"
  shows "(epoch t < epochs t \<longrightarrow>
            fst (fit c t) \<noteq> None \<and> epoch (snd (fit c t)) = epoch t + 1 \<and>
            (\<forall>st t1. epoch_passes c t = (Inr st, t1) \<longrightarrow>
               fit c t = (Some (AttributeError ''visdom''), t1)) \<and>
            (\<forall>err t1. epoch_passes c t = (Inl err, t1) \<longrightarrow> fit c t = (Some err, t1))) \<and>
         (\<not> epoch t < epochs t \<longrightarrow> fst (fit c t) = None) \<and>
         visdom (snd (Trainer_init c' w trainl validl a files trace)) = arg_visdomenv a"
proof -
  note fe = fit_epoch_no_visdom [OF assms(1), of c]
  have loop: "fst (fit c t) \<noteq> None \<and> epoch (snd (fit c t)) = epoch t + 1 \<and>
            (\<forall>st t1. epoch_passes c t = (Inr st, t1) \<longrightarrow>
               fit c t = (Some (AttributeError ''visdom''), t1)) \<and>
            (\<forall>err t1. epoch_passes c t = (Inl err, t1) \<longrightarrow> fit c t = (Some err, t1))"
    if lt: "epoch t < epochs t"
  proof -
    have eq: "fit c t = fit_epoch c t" by (rule fit_epoch_stops [OF lt fe(1)])
    have "epoch (snd (fit_epoch c t)) = epoch t + 1"
      by (rule fit_epoch_frame(2) [of c t "fst (fit_epoch c t)"]) simp
    with eq fe show ?thesis by simp
  qed
  have exit: "fst (fit c t) = None" if "\<not> epoch t < epochs t"
    using that by (simp add: fit_unfold_exit)
  from loop exit show ?thesis by (simp add: Trainer_init_visdom)
qed

theorem fit_without_visdom_witness:
  "visdom (example_trainer 4 2 1 None ''twophase_linear_loss'') = None \<and>
   epoch (example_trainer 4 2 1 None ''twophase_linear_loss'') <
     epochs (example_trainer 4 2 1 None ''twophase_linear_loss'') \<and>
   fst (fit plain_collab (example_trainer 4 2 1 None ''twophase_linear_loss'')) =
     Some (AttributeError ''visdom'') \<and>
   epoch (snd (fit plain_collab (example_trainer 4 2 1 None ''twophase_linear_loss''))) = 1 \<and>
   passes (out (snd (fit plain_collab
     (example_trainer 4 2 1 None ''twophase_linear_loss'')))) = [TrainPass 1, TestPass 1] \<and>
   visdom (example_trainer 0 0 1 None ''twophase_linear_loss'') = None \<and>
   epochs (example_trainer 0 0 1 None ''twophase_linear_loss'') = 0 \<and>
   fst (fit plain_collab (example_trainer 0 0 1 None ''twophase_linear_loss'')) = None"
proof -
  let ?T = "example_trainer 4 2 1 None ''twophase_linear_loss''"
  let ?Z = "example_trainer 0 0 1 None ''twophase_linear_loss''"
  have Z: "visdom ?Z = None" "epoch ?Z = 0" "epochs ?Z = 0"
    by (simp_all add: example_trainer_fields)
  from conjunct1 [OF conjunct2 [OF fit_without_visdom [of ?Z plain_collab, OF Z(1)]]] Z
  have zr: "fst (fit plain_collab ?Z) = None" by simp
  have T: "visdom ?T = None" "epoch ?T = 0" "epochs ?T = 4"
    by (simp_all add: example_trainer_fields)
  then have lt: "epoch ?T < epochs ?T" by simp
  have ret: "\<not> isl (fst (epoch_passes plain_collab ?T))" by code_simp
  then obtain st t1 where ep: "epoch_passes plain_collab ?T = (Inr st, t1)"
    by (cases "epoch_passes plain_collab ?T"; cases "fst (epoch_passes plain_collab ?T)") auto
  have ps: "passes (out (snd (fit plain_collab ?T))) = [TrainPass 1, TestPass 1]"
    by code_simp
  note th = mp [OF conjunct1 [OF fit_without_visdom [of ?T plain_collab, OF T(1)]] lt]
  from conjunct1 [OF conjunct2 [OF th]] T
  have e1: "epoch (snd (fit plain_collab ?T)) = 1" by simp
  from conjunct1 [OF conjunct2 [OF conjunct2 [OF th]]] ep
  have "fit plain_collab ?T = (Some (AttributeError ''visdom''), t1)" by simp
  then have "fst (fit plain_collab ?T) = Some (AttributeError ''visdom'')" by simp
  with T lt e1 ps Z zr show ?thesis by simp
qed

end
